theory Spec2Isabelle
  imports Complex_Main "HOL-Library.AList"
begin

section \<open>Python values used by the exporter\<close>

text \<open>
  Python strings are modelled as \<open>string\<close>; the quota names, service codes and error
  texts of this program are ASCII. \<open>str.lower\<close> is modelled on the ASCII letters, and
  the substring test \<open>k in s\<close> by a left-to-right scan.
\<close>

definition lower_char :: "char \<Rightarrow> char" where
  "lower_char c =
     (case map_of (zip ''ABCDEFGHIJKLMNOPQRSTUVWXYZ'' ''abcdefghijklmnopqrstuvwxyz'') c of
        Some d \<Rightarrow> d
      | None \<Rightarrow> c)"

definition lower :: "string \<Rightarrow> string" where
  "lower s = map lower_char s"

fun startswith :: "string \<Rightarrow> string \<Rightarrow> bool" where
  "startswith [] s = True"
| "startswith (k # ks) [] = False"
| "startswith (k # ks) (c # cs) = (k = c \<and> startswith ks cs)"

fun py_in :: "string \<Rightarrow> string \<Rightarrow> bool" where
  "py_in k [] = (k = [])"
| "py_in k (c # cs) = (startswith k (c # cs) \<or> py_in k cs)"

text \<open>
  An exception raised by a remote call. A botocore \<open>ClientError\<close> carries the error code
  and message of the response; \<open>str(e)\<close> of a \<open>ClientError\<close> names the code in
  parentheses. Every other exception is kept by its text.
\<close>

datatype py_exception =
    ClientError string string
  | NameError string
  | OtherException string

fun exc_str :: "py_exception \<Rightarrow> string" where
  "exc_str (ClientError code message) =
     ''An error occurred ('' @ code @ '') when calling the GetServiceQuota operation: '' @ message"
| "exc_str (NameError n) = ''name '' @ [CHR 0x27] @ n @ [CHR 0x27] @ '' is not defined''"
| "exc_str (OtherException text) = text"

section \<open>Quota configuration (config/loader.py)\<close>

record QuotaItem =
  item_quota_code :: string
  item_quota_name :: string
  item_description :: string
  item_priority :: string
  item_cache_ttl_limit :: int
  item_cache_ttl_usage :: int

text \<open>A match rule is a dict; the only key the matcher reads is \<open>name_contains\<close>.\<close>

record match_rule =
  name_contains :: "string list option"

record DiscoveryConfig =
  enabled :: bool
  match_rules :: "match_rule list"
  default_priority :: string

datatype service_config =
    Quotas "QuotaItem list"
  | Discovery DiscoveryConfig

section \<open>Dynamic quota discovery (provider/aws/sagemaker\_discovery.py)\<close>

text \<open>One entry of the catalog returned by \<open>list_service_quotas\<close>.\<close>

record catalog_quota =
  cat_quota_code :: string
  cat_quota_name :: string
  cat_value :: real
  cat_unit :: string

text \<open>
  \<open>_matches_rules\<close>: the rules are tried in order; a rule without the key
  \<open>name_contains\<close> is passed over; the first rule all of whose keywords occur in the
  lower-cased name makes the result \<open>True\<close>.
\<close>

fun matches_rules :: "match_rule list \<Rightarrow> string \<Rightarrow> bool" where
  "matches_rules [] quota_name = False"
| "matches_rules (rule # rules) quota_name =
     (case name_contains rule of
        Some keywords \<Rightarrow>
          (if list_all (\<lambda>keyword. py_in (lower keyword) (lower quota_name)) keywords
           then True
           else matches_rules rules quota_name)
      | None \<Rightarrow> matches_rules rules quota_name)"

definition discovered_item :: "DiscoveryConfig \<Rightarrow> catalog_quota \<Rightarrow> QuotaItem" where
  "discovered_item config quota =
     \<lparr> item_quota_code = cat_quota_code quota,
       item_quota_name = cat_quota_name quota,
       item_description = ''Discovered SageMaker quota: '' @ cat_quota_name quota,
       item_priority = default_priority config,
       item_cache_ttl_limit = 86400,
       item_cache_ttl_usage = 3600 \<rparr>"

text \<open>
  \<open>discover_quotas\<close>: the argument is the outcome of the catalog call; an exception
  there gives the empty list.
\<close>

fun discover_quotas ::
  "DiscoveryConfig \<Rightarrow> py_exception + catalog_quota list \<Rightarrow> QuotaItem list" where
  "discover_quotas config (Inl e) = []"
| "discover_quotas config (Inr all_quotas) =
     map (discovered_item config)
       (filter (\<lambda>quota. matches_rules (match_rules config) (cat_quota_name quota)) all_quotas)"

section \<open>Collection results (collector/quota\_result.py)\<close>

datatype QuotaStatus = SUCCESS | SKIPPED | FAILED

text \<open>
  The dict \<open>quota_info\<close> of a result. The client fills the first six keys, the
  orchestrator adds \<open>account_id\<close> and \<open>region\<close>; the table-supplied limits carry no
  unit or adjustability keys. Python floats are modelled as reals, with not-a-number
  kept apart in \<open>gauge_value\<close> below.
\<close>

record quota_info =
  info_quota_code :: string
  info_quota_name :: string
  info_value :: real
  info_unit :: "string option"
  info_adjustable :: "bool option"
  info_global_quota :: "bool option"
  info_account_id :: "string option"
  info_region :: "string option"

record QuotaResult =
  res_service :: string
  res_quota_code :: string
  res_quota_name :: string
  res_status :: QuotaStatus
  res_account_id :: string
  res_region :: string
  res_reason :: "string option"
  res_quota_info :: "quota_info option"
  res_error :: "string option"

definition is_success :: "QuotaResult \<Rightarrow> bool" where
  "is_success r = (res_status r = SUCCESS)"

definition is_skipped :: "QuotaResult \<Rightarrow> bool" where
  "is_skipped r = (res_status r = SKIPPED)"

definition is_failed :: "QuotaResult \<Rightarrow> bool" where
  "is_failed r = (res_status r = FAILED)"

section \<open>Result aggregation (collector/collector.py)\<close>

datatype gauge_value = Num real | NaN

text \<open>The label set of the three gauges: provider, account id, region, service, quota name, quota code.\<close>

type_synonym labels = "string \<times> string \<times> string \<times> string \<times> string \<times> string"

text \<open>
  A usage snapshot is the dict from quota code to usage value. The collector keeps one
  sample per label set in each gauge; a label set that was never set has no sample. The
  duration histogram measures wall-clock time and is left out.
\<close>

type_synonym usage_snapshot = "(string \<times> real) list"

record QuotaCollector =
  quota_limit :: "labels \<rightharpoonup> gauge_value"
  quota_usage :: "labels \<rightharpoonup> gauge_value"
  quota_usage_percent :: "labels \<rightharpoonup> gauge_value"
  scrape_errors_total :: "string \<times> string \<times> string \<Rightarrow> nat"
  scrape_skipped_total :: "string \<times> string \<Rightarrow> nat"
  results :: "QuotaResult list"
  usage_data :: "string \<times> string \<times> string \<rightharpoonup> usage_snapshot"

definition QuotaCollector_init :: QuotaCollector where
  "QuotaCollector_init =
     \<lparr> quota_limit = Map.empty, quota_usage = Map.empty, quota_usage_percent = Map.empty,
       scrape_errors_total = (\<lambda>_. 0), scrape_skipped_total = (\<lambda>_. 0),
       results = [], usage_data = Map.empty \<rparr>"

definition get_usage_value ::
  "QuotaCollector \<Rightarrow> string \<Rightarrow> string \<Rightarrow> string \<Rightarrow> string \<Rightarrow> real option" where
  "get_usage_value c account_id region service quota_code =
     (case usage_data c (account_id, region, service) of
        None \<Rightarrow> None
      | Some usage \<Rightarrow> map_of usage quota_code)"

definition limit_value_of :: "quota_info option \<Rightarrow> real" where
  "limit_value_of quota_info = (case quota_info of None \<Rightarrow> 0 | Some qi \<Rightarrow> info_value qi)"

definition error_type_of :: "string option \<Rightarrow> string" where
  "error_type_of err =
     (let text = (case err of None \<Rightarrow> [] | Some e \<Rightarrow> e) in
      if py_in ''NoSuchResourceException'' text then ''quota_not_found''
      else if py_in ''AccessDeniedException'' text then ''permission_denied''
      else ''api_error'')"

definition add_result :: "QuotaResult \<Rightarrow> QuotaCollector \<Rightarrow> QuotaCollector" where
  "add_result result c =
     (let c1 = c\<lparr>results := results c @ [result]\<rparr> in
      if is_success result then
        (let limit_value = limit_value_of (res_quota_info result);
             account_id = res_account_id result;
             region = res_region result;
             lbls = (''aws'', account_id, region, res_service result,
                     res_quota_name result, res_quota_code result);
             c2 = c1\<lparr>quota_limit := (quota_limit c1)(lbls \<mapsto> Num limit_value)\<rparr>
         in case get_usage_value c2 account_id region (res_service result) (res_quota_code result) of
              Some usage_value \<Rightarrow>
                c2\<lparr>quota_usage := (quota_usage c2)(lbls \<mapsto> Num usage_value),
                   quota_usage_percent := (quota_usage_percent c2)(lbls \<mapsto>
                     (if limit_value > 0 then Num (usage_value / limit_value * 100) else NaN))\<rparr>
            | None \<Rightarrow>
                c2\<lparr>quota_usage := (quota_usage c2)(lbls \<mapsto> NaN),
                   quota_usage_percent := (quota_usage_percent c2)(lbls \<mapsto> NaN)\<rparr>)
      else if is_skipped result then
        (let reason = (case res_reason result of
                         None \<Rightarrow> ''unknown''
                       | Some r \<Rightarrow> if r = [] then ''unknown'' else r);
             k = (res_service result, reason)
         in c1\<lparr>scrape_skipped_total := (scrape_skipped_total c1)(k := scrape_skipped_total c1 k + 1)\<rparr>)
      else if is_failed result then
        (let k = (res_service result, res_quota_code result, error_type_of (res_error result))
         in c1\<lparr>scrape_errors_total := (scrape_errors_total c1)(k := scrape_errors_total c1 k + 1)\<rparr>)
      else c1)"

definition collect_all :: "QuotaResult list \<Rightarrow> QuotaCollector \<Rightarrow> QuotaCollector" where
  "collect_all rs c = fold add_result rs c"

text \<open>The body of the first loop of \<open>set_usage_data\<close>, over the success results.\<close>

definition usage_for_success ::
  "string \<Rightarrow> string \<Rightarrow> string \<Rightarrow> usage_snapshot \<Rightarrow> QuotaResult \<Rightarrow> QuotaCollector \<Rightarrow> QuotaCollector" where
  "usage_for_success account_id region service usage result c =
     (if is_success result \<and>
         (case res_quota_info result of
            None \<Rightarrow> False
          | Some qi \<Rightarrow> info_account_id qi = Some account_id \<and> info_region qi = Some region) \<and>
         res_service result = service
      then
        (case map_of usage (res_quota_code result) of
           None \<Rightarrow> c
         | Some usage_value \<Rightarrow>
             (let limit_value = limit_value_of (res_quota_info result);
                  lbls = (''aws'', account_id, region, service,
                          res_quota_name result, res_quota_code result)
              in c\<lparr>quota_usage := (quota_usage c)(lbls \<mapsto> Num usage_value),
                   quota_usage_percent := (quota_usage_percent c)(lbls \<mapsto>
                     (if limit_value > 0 then Num (usage_value / limit_value * 100) else NaN))\<rparr>))
      else c)"

text \<open>The body of the second loop of \<open>set_usage_data\<close>, over the skipped results.\<close>

definition usage_for_skipped ::
  "string \<Rightarrow> string \<Rightarrow> string \<Rightarrow> usage_snapshot \<Rightarrow> QuotaResult \<Rightarrow> QuotaCollector \<Rightarrow> QuotaCollector" where
  "usage_for_skipped account_id region service usage result c =
     (if is_skipped result \<and> res_account_id result = account_id \<and>
         res_region result = region \<and> res_service result = service
      then
        (case map_of usage (res_quota_code result) of
           None \<Rightarrow> c
         | Some usage_value \<Rightarrow>
             (let lbls = (''aws'', account_id, region, service,
                          res_quota_name result, res_quota_code result)
              in c\<lparr>quota_usage := (quota_usage c)(lbls \<mapsto> Num usage_value),
                   quota_usage_percent := (quota_usage_percent c)(lbls \<mapsto> NaN)\<rparr>))
      else c)"

definition set_usage_data ::
  "string \<Rightarrow> string \<Rightarrow> string \<Rightarrow> usage_snapshot \<Rightarrow> QuotaCollector \<Rightarrow> QuotaCollector" where
  "set_usage_data account_id region service usage c =
     (let c1 = c\<lparr>usage_data := (usage_data c)((account_id, region, service) \<mapsto> usage)\<rparr>;
          c2 = fold (usage_for_success account_id region service usage) (results c1) c1
      in fold (usage_for_skipped account_id region service usage) (results c2) c2)"

section \<open>In-memory cache with expiry (cache/cache.py)\<close>

text \<open>
  The cache maps a key to the value and its expiration time. The reading of
  \<open>time.time()\<close> is the argument \<open>now\<close>. \<open>get\<close> returns the pair (value, exists) of the
  source as an option, with the cache after the read.
\<close>

type_synonym 'v MemoryCache = "string \<rightharpoonup> 'v \<times> real"

definition MemoryCache_get ::
  "real \<Rightarrow> string \<Rightarrow> 'v MemoryCache \<Rightarrow> 'v option \<times> 'v MemoryCache" where
  "MemoryCache_get now key cache =
     (case cache key of
        None \<Rightarrow> (None, cache)
      | Some (v, expiration_time) \<Rightarrow>
          if now > expiration_time then (None, cache(key := None))
          else (Some v, cache))"

definition MemoryCache_set ::
  "real \<Rightarrow> string \<Rightarrow> 'v \<Rightarrow> int \<Rightarrow> 'v MemoryCache \<Rightarrow> 'v MemoryCache" where
  "MemoryCache_set now key v ttl cache = cache(key \<mapsto> (v, now + of_int ttl))"

definition MemoryCache_delete :: "string \<Rightarrow> 'v MemoryCache \<Rightarrow> 'v MemoryCache" where
  "MemoryCache_delete key cache = cache(key := None)"

definition MemoryCache_cleanup_expired :: "real \<Rightarrow> 'v MemoryCache \<Rightarrow> 'v MemoryCache" where
  "MemoryCache_cleanup_expired current_time cache =
     (\<lambda>key. case cache key of
               None \<Rightarrow> None
             | Some (v, expiration_time) \<Rightarrow>
                 if current_time > expiration_time then None else Some (v, expiration_time))"

section \<open>File-backed limit cache (cache/quota\_limit\_cache.py)\<close>

text \<open>
  One JSON file per (account id, region, service); a file holds one timestamp and the dict
  from quota code to the cached \<open>quota_info\<close>. A file that cannot be read or parsed is
  \<open>Unreadable\<close>. Writes are taken to succeed. The reading of \<open>time.time()\<close> is the
  argument \<open>now\<close>. A cached \<open>quota_info\<close> is a dict with keys, so the test
  \<open>if quota_data\<close> of the read path holds for every cached entry. The read path has no
  delete: \<open>get\<close> returns a value and leaves the files as they are.
\<close>

record limit_cache_data =
  lcd_timestamp :: "real option"
  lcd_account_id :: "string option"
  lcd_region :: "string option"
  lcd_service :: "string option"
  lcd_quotas :: "(string \<times> quota_info) list option"

datatype limit_cache_file = Unreadable | Json limit_cache_data

record QuotaLimitCache =
  cache_ttl :: int
  limit_files :: "string \<times> string \<times> string \<rightharpoonup> limit_cache_file"

definition QuotaLimitCache_get ::
  "real \<Rightarrow> QuotaLimitCache \<Rightarrow> string \<Rightarrow> string \<Rightarrow> string \<Rightarrow> string \<Rightarrow> quota_info option" where
  "QuotaLimitCache_get now cache account_id region service quota_code =
     (case limit_files cache (account_id, region, service) of
        None \<Rightarrow> None
      | Some Unreadable \<Rightarrow> None
      | Some (Json cache_data) \<Rightarrow>
          (let cache_time = (case lcd_timestamp cache_data of None \<Rightarrow> 0 | Some t \<Rightarrow> t) in
           if now - cache_time > of_int (cache_ttl cache) then None
           else case lcd_quotas cache_data of
                  None \<Rightarrow> None
                | Some quotas \<Rightarrow> map_of quotas quota_code))"

definition QuotaLimitCache_set ::
  "real \<Rightarrow> QuotaLimitCache \<Rightarrow> string \<Rightarrow> string \<Rightarrow> string \<Rightarrow> string \<Rightarrow> quota_info
     \<Rightarrow> QuotaLimitCache" where
  "QuotaLimitCache_set now cache account_id region service quota_code quota_data =
     (let quotas =
            (case limit_files cache (account_id, region, service) of
               Some (Json cache_data) \<Rightarrow>
                 (case lcd_quotas cache_data of None \<Rightarrow> [] | Some qs \<Rightarrow> qs)
             | _ \<Rightarrow> []);
          cache_data =
            \<lparr> lcd_timestamp = Some now, lcd_account_id = Some account_id,
              lcd_region = Some region, lcd_service = Some service,
              lcd_quotas = Some (AList.update quota_code quota_data quotas) \<rparr>
      in cache\<lparr>limit_files := (limit_files cache)((account_id, region, service) \<mapsto> Json cache_data)\<rparr>)"

section \<open>Scheduler (scheduler/scheduler.py)\<close>

text \<open>
  The names bound in the module when \<open>QuotaScheduler.__init__\<close> runs: the three imported
  modules, \<open>Callable\<close> (the only name imported from \<open>typing\<close>), the logger and the
  class itself. \<open>Optional\<close> is not among them.
\<close>

definition scheduler_module_names :: "string list" where
  "scheduler_module_names =
     [''threading'', ''time'', ''logging'', ''Callable'', ''logger'', ''QuotaScheduler'']"

text \<open>
  Python's rule for an annotated assignment \<open>target: annotation = value\<close>: at module or
  class level the annotation is evaluated, and a name in it that is not bound raises
  \<open>NameError\<close>; inside a function body the annotation is not evaluated at all.
\<close>

datatype scope = ModuleScope | ClassScope | FunctionScope

definition eval_annotation :: "scope \<Rightarrow> string list \<Rightarrow> string list \<Rightarrow> py_exception + unit" where
  "eval_annotation sc bound names =
     (if sc = FunctionScope then Inr ()
      else case filter (\<lambda>n. \<not> List.member bound n) names of
             [] \<Rightarrow> Inr ()
           | n # _ \<Rightarrow> Inl (NameError n))"

text \<open>
  The scheduler object. A thread field is \<open>None\<close> or holds the thread's alive flag. The
  two callbacks are not part of the state: their outcomes are inputs of the loops below.
\<close>

record QuotaScheduler =
  limit_interval :: int
  usage_interval :: int
  running :: bool
  limit_thread :: "bool option"
  usage_thread :: "bool option"

definition QuotaScheduler_init :: "int \<Rightarrow> int \<Rightarrow> py_exception + QuotaScheduler" where
  "QuotaScheduler_init limit_interval' usage_interval' =
     (case eval_annotation FunctionScope scheduler_module_names [''Optional'', ''threading''] of
        Inl e \<Rightarrow> Inl e
      | Inr _ \<Rightarrow>
          (case eval_annotation FunctionScope scheduler_module_names [''Optional'', ''threading''] of
             Inl e \<Rightarrow> Inl e
           | Inr _ \<Rightarrow>
               Inr \<lparr> limit_interval = limit_interval', usage_interval = usage_interval',
                     running = False, limit_thread = None, usage_thread = None \<rparr>))"

definition start :: "QuotaScheduler \<Rightarrow> QuotaScheduler" where
  "start s =
     (if running s then s
      else s\<lparr>running := True, limit_thread := Some True, usage_thread := Some True\<rparr>)"

text \<open>
  \<open>stop\<close> clears the running flag and joins each live thread for at most 5 seconds.
  Whether a thread has ended by then is an input: a thread is alive afterwards when it was
  alive before and its join timed out.
\<close>

definition stop :: "bool \<Rightarrow> bool \<Rightarrow> QuotaScheduler \<Rightarrow> QuotaScheduler" where
  "stop limit_join_timed_out usage_join_timed_out s =
     (if \<not> running s then s
      else s\<lparr>running := False,
             limit_thread := map_option (\<lambda>alive. alive \<and> limit_join_timed_out) (limit_thread s),
             usage_thread := map_option (\<lambda>alive. alive \<and> usage_join_timed_out) (usage_thread s)\<rparr>)"

text \<open>\<open>get_status\<close>: running, limit interval, usage interval, and the two alive flags.\<close>

definition get_status :: "QuotaScheduler \<Rightarrow> bool \<times> int \<times> int \<times> bool \<times> bool" where
  "get_status s =
     (running s, limit_interval s, usage_interval s,
      (case limit_thread s of None \<Rightarrow> False | Some alive \<Rightarrow> alive),
      (case usage_thread s of None \<Rightarrow> False | Some alive \<Rightarrow> alive))"

text \<open>
  \<open>time.sleep\<close> with an integer argument: the seconds are converted to nanoseconds in a
  signed 64-bit integer, which raises \<open>OverflowError\<close> when they do not fit; a negative
  length then raises \<open>ValueError\<close>; otherwise the call sleeps and returns.
\<close>

definition time_sleep_error :: "int \<Rightarrow> string option" where
  "time_sleep_error secs =
     (if secs * 1000000000 > 9223372036854775807 \<or> secs * 1000000000 < - 9223372036854775808
        then Some ''timestamp too large to convert to C _PyTime_t''
      else if secs < 0 then Some ''sleep length must be non-negative''
      else None)"

text \<open>
  The two refresh loops have the same body and differ in the interval and the callback.
  One pass of the loop reads \<open>_running\<close> at the \<open>while\<close> test. Inside the \<open>try\<close> it sleeps
  the interval; when \<open>time.sleep\<close> raises, the handler logs the error and the pass is over.
  After the sleep \<open>_running\<close> is read again, and if it is true the callback is called. The
  callback returns, or raises an exception of class \<open>Exception\<close>, which the handler
  \<open>except Exception\<close> logs, or raises an exception outside that class (\<open>SystemExit\<close>,
  \<open>KeyboardInterrupt\<close>), which the handler does not catch, so that the loop and its thread
  end with it. The two readings of \<open>_running\<close> and the outcome of the callback are the input
  of a pass; the loop is run on a finite list of them, and is \<open>StillLooping\<close> when the list
  is used up without the loop having left.
\<close>

datatype callback_outcome = Returns | Raises string | RaisesBase string

record iteration =
  running_at_test :: bool
  running_after_sleep :: bool
  outcome :: callback_outcome

datatype loop_event = Slept int | Called string | LoggedError string

datatype loop_state = Exited | Died string | StillLooping

fun refresh_loop :: "string \<Rightarrow> int \<Rightarrow> iteration list \<Rightarrow> loop_event list \<times> loop_state" where
  "refresh_loop callback interval [] = ([], StillLooping)"
| "refresh_loop callback interval (it # its) =
     (if \<not> running_at_test it then ([], Exited)
      else
        (case time_sleep_error interval of
           Some err \<Rightarrow>
             (case refresh_loop callback interval its of
                (events, st) \<Rightarrow> (LoggedError err # events, st))
         | None \<Rightarrow>
             if \<not> running_after_sleep it then ([Slept interval], Exited)
             else
               (case outcome it of
                  Returns \<Rightarrow>
                    (case refresh_loop callback interval its of
                       (events, st) \<Rightarrow> (Slept interval # Called callback # events, st))
                | Raises e \<Rightarrow>
                    (case refresh_loop callback interval its of
                       (events, st) \<Rightarrow>
                         (Slept interval # Called callback # LoggedError e # events, st))
                | RaisesBase e \<Rightarrow> ([Slept interval, Called callback], Died e))))"

text \<open>
  The events of one pass that the loop survives: the logged error when the sleep raises;
  otherwise the sleep, the call, and the logged error if the call raised.
\<close>

definition pass_events :: "string \<Rightarrow> int \<Rightarrow> iteration \<Rightarrow> loop_event list" where
  "pass_events callback interval it =
     (case time_sleep_error interval of
        Some err \<Rightarrow> [LoggedError err]
      | None \<Rightarrow>
          [Slept interval, Called callback] @
          (case outcome it of Returns \<Rightarrow> [] | Raises e \<Rightarrow> [LoggedError e] | RaisesBase e \<Rightarrow> []))"

definition limit_refresh_loop ::
  "QuotaScheduler \<Rightarrow> iteration list \<Rightarrow> loop_event list \<times> loop_state" where
  "limit_refresh_loop s its = refresh_loop ''collect_limit_func'' (limit_interval s) its"

definition usage_refresh_loop ::
  "QuotaScheduler \<Rightarrow> iteration list \<Rightarrow> loop_event list \<times> loop_state" where
  "usage_refresh_loop s its = refresh_loop ''collect_usage_func'' (usage_interval s) its"

section \<open>Active region discovery (provider/discovery/active\_region\_discoverer.py)\<close>

text \<open>
  The per-account cache file holds a timestamp and the region list; either key may be
  missing, and a file that cannot be read or parsed is \<open>RegionUnreadable\<close>. The
  discoverer state is the cache directory together with the log of the probe calls made,
  each as (account id, region). Writes are taken to succeed.
\<close>

datatype region_cache_file = RegionUnreadable | RegionJson "real option" "string list option"

record ActiveRegionDiscoverer =
  region_cache_ttl :: int
  region_files :: "string \<rightharpoonup> region_cache_file"
  probes :: "(string \<times> string) list"

record credentials =
  access_key :: "string option"
  secret_key :: "string option"

text \<open>
  What a discovery call reads from outside: the region candidates (empty when the
  database cannot be read), the accounts with their credentials in dict order, and the
  answer of \<open>describe_instances\<close> for a region and key pair, as the number of instances in
  each reservation.
\<close>

record discovery_env =
  region_candidates :: "string list"
  account_credentials :: "(string \<times> credentials) list"
  describe_instances :: "string \<Rightarrow> string \<Rightarrow> string \<Rightarrow> py_exception + nat list"

fun count_instances :: "nat \<Rightarrow> nat list \<Rightarrow> nat" where
  "count_instances instance_count [] = instance_count"
| "count_instances instance_count (k # ks) =
     (if instance_count + k > 0 then instance_count + k
      else count_instances (instance_count + k) ks)"

definition probe_ec2_usage :: "discovery_env \<Rightarrow> string \<Rightarrow> string \<Rightarrow> string \<Rightarrow> bool" where
  "probe_ec2_usage env region ak sk =
     (case describe_instances env region ak sk of
        Inl e \<Rightarrow> False
      | Inr reservations \<Rightarrow> count_instances 0 reservations > 0)"

definition load_account_cache ::
  "real \<Rightarrow> ActiveRegionDiscoverer \<Rightarrow> string \<Rightarrow> string list option" where
  "load_account_cache now d account_id =
     (case region_files d account_id of
        None \<Rightarrow> None
      | Some RegionUnreadable \<Rightarrow> None
      | Some (RegionJson timestamp regions) \<Rightarrow>
          (let cache_time = (case timestamp of None \<Rightarrow> 0 | Some t \<Rightarrow> t) in
           if now - cache_time > of_int (region_cache_ttl d) then None
           else Some (case regions of None \<Rightarrow> [] | Some rs \<Rightarrow> rs)))"

definition save_account_cache ::
  "real \<Rightarrow> ActiveRegionDiscoverer \<Rightarrow> string \<Rightarrow> string list \<Rightarrow> ActiveRegionDiscoverer" where
  "save_account_cache now d account_id regions =
     d\<lparr>region_files := (region_files d)(account_id \<mapsto> RegionJson (Some now) (Some regions))\<rparr>"

text \<open>\<open>not access_key\<close>: the key is missing or the empty string.\<close>

definition key_missing :: "string option \<Rightarrow> bool" where
  "key_missing k = (case k of None \<Rightarrow> True | Some s \<Rightarrow> s = [])"

text \<open>
  The body of the account loop of \<open>discover_ec2_used_regions_from_provider\<close>. Every
  reading of the clock during one call is \<open>now\<close>.
\<close>

definition discover_account ::
  "discovery_env \<Rightarrow> bool \<Rightarrow> bool \<Rightarrow> real \<Rightarrow> string \<times> credentials
     \<Rightarrow> (string \<rightharpoonup> string list) \<times> ActiveRegionDiscoverer
     \<Rightarrow> (string \<rightharpoonup> string list) \<times> ActiveRegionDiscoverer" where
  "discover_account env use_cache force_refresh now acct st =
     (case acct of (account_id, creds) \<Rightarrow>
      case st of (result, d) \<Rightarrow>
        if key_missing (access_key creds) \<or> key_missing (secret_key creds) then (result, d)
        else
          (case (if use_cache \<and> \<not> force_refresh then load_account_cache now d account_id
                 else None) of
             Some cached_regions \<Rightarrow> (result(account_id \<mapsto> cached_regions), d)
           | None \<Rightarrow>
               (let used_regions =
                      filter (\<lambda>region. probe_ec2_usage env region
                                (the (access_key creds)) (the (secret_key creds)))
                        (region_candidates env);
                    d1 = d\<lparr>probes := probes d @ map (Pair account_id) (region_candidates env)\<rparr>;
                    d2 = (if use_cache then save_account_cache now d1 account_id used_regions
                          else d1)
                in (result(account_id \<mapsto> used_regions), d2))))"

definition discover_ec2_used_regions_from_provider ::
  "discovery_env \<Rightarrow> bool \<Rightarrow> bool \<Rightarrow> real \<Rightarrow> ActiveRegionDiscoverer
     \<Rightarrow> (string \<rightharpoonup> string list) \<times> ActiveRegionDiscoverer" where
  "discover_ec2_used_regions_from_provider env use_cache force_refresh now d =
     (if region_candidates env = [] then (Map.empty, d)
      else if account_credentials env = [] then (Map.empty, d)
      else fold (discover_account env use_cache force_refresh now)
             (account_credentials env) (Map.empty, d))"

section \<open>Service Quotas client (provider/aws/service\_quotas.py)\<close>

text \<open>The \<open>Quota\<close> dict of a \<open>GetServiceQuota\<close> response; any key may be missing.\<close>

record api_quota =
  aq_QuotaCode :: "string option"
  aq_QuotaName :: "string option"
  aq_Value :: "real option"
  aq_Unit :: "string option"
  aq_Adjustable :: "bool option"
  aq_GlobalQuota :: "bool option"

text \<open>
  What the orchestrator reads from outside. The answer to the n-th \<open>GetServiceQuota\<close>
  call depends on n (the number of calls made before it), the client's region, the service
  and the quota code; the catalog call depends on the client's region; a usage collector
  on service, account and region; the region provider on the account. The last field is
  the environment flag \<open>FORCE_REFRESH_QUOTA_LIMITS\<close>. Credentials only select the session
  that the remote calls are made with and are not modelled; constructing a client is
  taken to succeed.
\<close>

record remote =
  get_quota_api :: "nat \<Rightarrow> string \<Rightarrow> string \<Rightarrow> string \<Rightarrow> py_exception + api_quota"
  list_quotas_api :: "string \<Rightarrow> py_exception + catalog_quota list"
  collect_usage_api :: "string \<Rightarrow> string \<Rightarrow> string \<Rightarrow> py_exception + usage_snapshot"
  get_regions_api :: "string \<Rightarrow> py_exception + string list"
  force_refresh_quota_limits :: bool

text \<open>
  The state that a collection run changes: the clock (advanced by every sleep), the
  durations passed to \<open>time.sleep\<close> in order, the \<open>GetServiceQuota\<close> calls made, each as
  (client region, service, quota code), and the file-backed limit cache if one is in use.
\<close>

record world =
  clock :: real
  sleeps :: "real list"
  api_calls :: "(string \<times> string \<times> string) list"
  limit_cache :: "QuotaLimitCache option"

definition sleep :: "real \<Rightarrow> world \<Rightarrow> world" where
  "sleep seconds w = w\<lparr>clock := clock w + seconds, sleeps := sleeps w @ [seconds]\<rparr>"

text \<open>
  \<open>get_service_quota\<close>: on success the result dict with the defaults of the source
  (\<open>quota_dict\<close>); on a
  \<open>ClientError\<close> with code \<open>TooManyRequestsException\<close> the client sleeps 2 seconds and
  raises the error again; every other exception is raised again at once.
\<close>

definition quota_dict :: "string \<Rightarrow> api_quota \<Rightarrow> quota_info" where
  "quota_dict quota_code quota =
     \<lparr> info_quota_code = (case aq_QuotaCode quota of None \<Rightarrow> quota_code | Some c \<Rightarrow> c),
       info_quota_name = (case aq_QuotaName quota of None \<Rightarrow> [] | Some n \<Rightarrow> n),
       info_value = (case aq_Value quota of None \<Rightarrow> 0 | Some v \<Rightarrow> v),
       info_unit = Some (case aq_Unit quota of None \<Rightarrow> [] | Some u \<Rightarrow> u),
       info_adjustable = Some (case aq_Adjustable quota of None \<Rightarrow> False | Some b \<Rightarrow> b),
       info_global_quota = Some (case aq_GlobalQuota quota of None \<Rightarrow> False | Some b \<Rightarrow> b),
       info_account_id = None,
       info_region = None \<rparr>"

definition get_service_quota ::
  "remote \<Rightarrow> string \<Rightarrow> string \<Rightarrow> string \<Rightarrow> world \<Rightarrow> (py_exception + quota_info) \<times> world" where
  "get_service_quota rem client_region service_code quota_code w =
     (let w1 = w\<lparr>api_calls := api_calls w @ [(client_region, service_code, quota_code)]\<rparr> in
      case get_quota_api rem (length (api_calls w)) client_region service_code quota_code of
        Inr quota \<Rightarrow> (Inr (quota_dict quota_code quota), w1)
      | Inl (ClientError error_code error_message) \<Rightarrow>
          if error_code = ''NoSuchResourceException'' then (Inl (ClientError error_code error_message), w1)
          else if error_code = ''AccessDeniedException'' then (Inl (ClientError error_code error_message), w1)
          else if error_code = ''TooManyRequestsException''
            then (Inl (ClientError error_code error_message), sleep 2 w1)
          else (Inl (ClientError error_code error_message), w1)
      | Inl e \<Rightarrow> (Inl e, w1))"

section \<open>Collection orchestrator (main.py)\<close>

definition max_retries :: nat where
  "max_retries = 3"

text \<open>
  The retry loop around \<open>get_service_quota\<close>, written four times in the source with the
  same text (discovered and declared quotas, concurrent and sequential path). The loop
  ends with the quota info (the \<open>break\<close>), with the exception it raises again, or with
  \<open>quota_info\<close> still \<open>None\<close> when the loop condition fails.
\<close>

function retry_loop ::
  "remote \<Rightarrow> string \<Rightarrow> string \<Rightarrow> string \<Rightarrow> nat \<Rightarrow> world
     \<Rightarrow> (py_exception + quota_info option) \<times> world" where
  "retry_loop rem client_region service quota_code retry_count w =
     (if retry_count < max_retries then
        (case get_service_quota rem client_region service quota_code w of
           (Inr quota_info, w1) \<Rightarrow> (Inr (Some quota_info), w1)
         | (Inl api_error, w1) \<Rightarrow>
             if py_in ''TooManyRequestsException'' (exc_str api_error)
                \<and> retry_count < max_retries - 1
             then retry_loop rem client_region service quota_code (retry_count + 1)
                    (sleep (2 ^ retry_count * 2) w1)
             else (Inl api_error, w1))
      else (Inr None, w))"
  by pat_completeness auto
termination
  by (relation "measure (\<lambda>(rem, client_region, service, quota_code, retry_count, w).
                  max_retries - retry_count)") auto

declare retry_loop.simps [simp del]

text \<open>
  Used in the statements about the retry loop: the loop's test for a throttling error (the
  text of the exception names \<open>TooManyRequestsException\<close>); the sleeps that the client
  makes before it raises an exception again; and the world after \<open>n\<close> calls for the
  quota \<open>c\<close> with the sleeps \<open>sl\<close>.
\<close>

definition throttled :: "py_exception \<Rightarrow> bool" where
  "throttled e = py_in ''TooManyRequestsException'' (exc_str e)"

definition client_sleeps :: "py_exception \<Rightarrow> real list" where
  "client_sleeps e =
     (case e of
        ClientError error_code error_message \<Rightarrow>
          if error_code = ''TooManyRequestsException'' then [2] else []
      | _ \<Rightarrow> [])"

definition after_calls :: "world \<Rightarrow> string \<times> string \<times> string \<Rightarrow> nat \<Rightarrow> real list \<Rightarrow> world" where
  "after_calls w c n sl =
     w\<lparr>clock := clock w + sum_list sl, sleeps := sleeps w @ sl,
       api_calls := api_calls w @ replicate n c\<rparr>"

definition success_result ::
  "string \<Rightarrow> string \<Rightarrow> string \<Rightarrow> string \<Rightarrow> string \<Rightarrow> quota_info \<Rightarrow> QuotaResult" where
  "success_result service quota_code quota_name account_id service_region quota_info =
     \<lparr> res_service = service, res_quota_code = quota_code, res_quota_name = quota_name,
       res_status = SUCCESS, res_account_id = account_id, res_region = service_region,
       res_reason = None,
       res_quota_info = Some (quota_info\<lparr>info_account_id := Some account_id,
                                          info_region := Some service_region\<rparr>),
       res_error = None \<rparr>"

definition failed_result ::
  "string \<Rightarrow> string \<Rightarrow> string \<Rightarrow> string \<Rightarrow> string \<Rightarrow> string \<Rightarrow> string \<Rightarrow> QuotaResult" where
  "failed_result service quota_code quota_name account_id service_region reason err =
     \<lparr> res_service = service, res_quota_code = quota_code, res_quota_name = quota_name,
       res_status = FAILED, res_account_id = account_id, res_region = service_region,
       res_reason = Some reason, res_quota_info = None, res_error = Some err \<rparr>"

definition reason_of :: "string \<Rightarrow> string" where
  "reason_of error_msg =
     (if py_in ''NoSuchResourceException'' error_msg then ''quota_not_found''
      else if py_in ''AccessDeniedException'' error_msg then ''permission_denied''
      else ''api_error'')"

text \<open>The result made from the outcome of the retry loop.\<close>

definition result_of_fetch ::
  "string \<Rightarrow> string \<Rightarrow> string \<Rightarrow> string \<Rightarrow> string \<Rightarrow> py_exception + quota_info option
     \<Rightarrow> QuotaResult" where
  "result_of_fetch service quota_code quota_name account_id service_region fetched =
     (case fetched of
        Inr (Some quota_info) \<Rightarrow>
          success_result service quota_code quota_name account_id service_region quota_info
      | Inr None \<Rightarrow>
          failed_result service quota_code quota_name account_id service_region
            ''empty_response'' ''API returned empty response''
      | Inl e \<Rightarrow>
          failed_result service quota_code quota_name account_id service_region
            (reason_of (exc_str e)) (exc_str e))"

text \<open>One discovered quota: the pacing delay of 0.1 seconds, then the retry loop.\<close>

definition collect_discovered_quota ::
  "remote \<Rightarrow> string \<Rightarrow> string \<Rightarrow> string \<Rightarrow> string \<Rightarrow> QuotaItem \<Rightarrow> world
     \<Rightarrow> QuotaResult \<times> world" where
  "collect_discovered_quota rem client_region account_id service service_region quota_item w =
     (case retry_loop rem client_region service (item_quota_code quota_item) 0 (sleep (1 / 10) w) of
        (fetched, w1) \<Rightarrow>
          (result_of_fetch service (item_quota_code quota_item) (item_quota_name quota_item)
             account_id service_region fetched, w1))"

text \<open>
  One declared quota, as in \<open>_collect_account_region_quotas\<close>: the limit cache is read
  first unless force-refresh is set; on a miss the remote call is made as above and a
  fetched value is written to the cache. The sequential path of \<open>collect_quotas\<close> has the
  same steps without the cache.
\<close>

definition collect_declared_quota ::
  "remote \<Rightarrow> string \<Rightarrow> string \<Rightarrow> string \<Rightarrow> string \<Rightarrow> QuotaItem \<Rightarrow> world
     \<Rightarrow> QuotaResult \<times> world" where
  "collect_declared_quota rem client_region account_id service service_region quota w =
     (let quota_code = item_quota_code quota;
          quota_name = item_quota_name quota;
          cached_data =
            (case limit_cache w of
               None \<Rightarrow> None
             | Some cache \<Rightarrow>
                 if \<not> force_refresh_quota_limits rem
                 then QuotaLimitCache_get (clock w) cache account_id service_region service quota_code
                 else None)
      in case cached_data of
           Some quota_info \<Rightarrow>
             (success_result service quota_code quota_name account_id service_region quota_info, w)
         | None \<Rightarrow>
             (case retry_loop rem client_region service quota_code 0 (sleep (1 / 10) w) of
                (Inr (Some quota_info), w1) \<Rightarrow>
                  (success_result service quota_code quota_name account_id service_region quota_info,
                   (case limit_cache w1 of
                      None \<Rightarrow> w1
                    | Some cache \<Rightarrow>
                        w1\<lparr>limit_cache := Some (QuotaLimitCache_set (clock w1) cache account_id
                                                 service_region service quota_code quota_info)\<rparr>))
              | (fetched, w1) \<Rightarrow>
                  (result_of_fetch service quota_code quota_name account_id service_region fetched,
                   w1)))"

text \<open>A loop over quotas that appends one result per quota.\<close>

fun collect_each ::
  "(QuotaItem \<Rightarrow> world \<Rightarrow> QuotaResult \<times> world) \<Rightarrow> QuotaItem list \<Rightarrow> world
     \<Rightarrow> QuotaResult list \<times> world" where
  "collect_each f [] w = ([], w)"
| "collect_each f (quota # quotas) w =
     (case f quota w of
        (result, w1) \<Rightarrow>
          (case collect_each f quotas w1 of
             (rs, w2) \<Rightarrow> (result # rs, w2)))"

definition cloudfront_default_limits :: "(string \<times> real) list" where
  "cloudfront_default_limits =
     [(''L-24B04930'', 200), (''L-7D134442'', 20), (''L-CF0D4FC5'', 20), (''L-08884E5C'', 100)]"

text \<open>
  The CloudFront branch: a quota whose code is in the built-in table gives a success result
  with the table's value as limit; a quota whose code is not in the table gives nothing.
\<close>

definition collect_cloudfront ::
  "string \<Rightarrow> string \<Rightarrow> string \<Rightarrow> QuotaItem list \<Rightarrow> QuotaResult list" where
  "collect_cloudfront account_id service service_region quotas =
     concat (map (\<lambda>quota.
        case map_of cloudfront_default_limits (item_quota_code quota) of
          Some default_limit \<Rightarrow>
            [\<lparr> res_service = service, res_quota_code = item_quota_code quota,
                res_quota_name = item_quota_name quota, res_status = SUCCESS,
                res_account_id = account_id, res_region = service_region, res_reason = None,
                res_quota_info = Some
                  \<lparr> info_quota_code = item_quota_code quota,
                    info_quota_name = item_quota_name quota,
                    info_value = default_limit, info_unit = None, info_adjustable = None,
                    info_global_quota = None, info_account_id = Some account_id,
                    info_region = Some service_region \<rparr>,
                res_error = None \<rparr>]
        | None \<Rightarrow> []) quotas)"

definition global_services :: "string list" where
  "global_services = [''route53'', ''cloudfront'']"

definition regional_services :: "string list" where
  "regional_services =
     [''ec2'', ''ebs'', ''elasticloadbalancing'', ''eks'', ''elasticache'', ''sagemaker'']"

definition usage_services :: "string list" where
  "usage_services =
     [''ec2'', ''ebs'', ''elasticloadbalancing'', ''eks'', ''elasticache'', ''route53'',
      ''cloudfront'', ''sagemaker'']"

text \<open>
  The body of the service loop of the limit phase. The loop carries the region of the
  current Service Quotas client, the results so far and the world.
\<close>

definition collect_service_limits ::
  "remote \<Rightarrow> string \<Rightarrow> string \<Rightarrow> string \<times> service_config
     \<Rightarrow> string \<times> QuotaResult list \<times> world \<Rightarrow> string \<times> QuotaResult list \<times> world" where
  "collect_service_limits rem account_id region entry st =
     (case entry of (service, service_config) \<Rightarrow>
      case st of (client_region, region_results, w) \<Rightarrow>
       (let service_region = (if List.member global_services service then ''us-east-1'' else region);
            client_region1 = (if List.member global_services service \<and> region \<noteq> ''us-east-1''
                              then ''us-east-1'' else client_region)
        in case service_config of
             Discovery discovery_config \<Rightarrow>
               if enabled discovery_config then
                 (let client_region2 =
                        (if List.member regional_services service \<and> service_region \<noteq> client_region1
                         then service_region else client_region1);
                      discovered_quotas =
                        discover_quotas discovery_config (list_quotas_api rem client_region2)
                  in case collect_each
                            (collect_discovered_quota rem client_region2 account_id service service_region)
                            discovered_quotas w of
                       (rs, w1) \<Rightarrow> (client_region2, region_results @ rs, w1))
               else (client_region1, region_results, w)
           | Quotas quotas \<Rightarrow>
               if service = ''cloudfront'' then
                 (client_region1,
                  region_results @ collect_cloudfront account_id service service_region quotas, w)
               else
                 (case collect_each
                         (collect_declared_quota rem client_region1 account_id service service_region)
                         quotas w of
                    (rs, w1) \<Rightarrow> (client_region1, region_results @ rs, w1))))"

text \<open>An element of the list a region returns: a usage snapshot for a scope, or a result.\<close>

datatype region_item =
    UsageData string string string usage_snapshot
  | Result QuotaResult

definition collect_usage_items ::
  "remote \<Rightarrow> (string \<times> service_config) list \<Rightarrow> string list \<Rightarrow> string \<Rightarrow> string
     \<Rightarrow> region_item list" where
  "collect_usage_items rem quota_config usage_collectors account_id region =
     concat (map (\<lambda>service.
        if List.member (map fst quota_config) service \<and> List.member usage_collectors service then
          (let usage_region = (if List.member global_services service then ''us-east-1'' else region)
           in case collect_usage_api rem service account_id usage_region of
                Inl e \<Rightarrow> []
              | Inr usage \<Rightarrow>
                  if usage \<noteq> [] then [UsageData account_id usage_region service usage] else [])
        else []) usage_services)"

definition collect_account_region_quotas ::
  "remote \<Rightarrow> (string \<times> service_config) list \<Rightarrow> string list \<Rightarrow> bool \<Rightarrow> bool
     \<Rightarrow> string \<Rightarrow> string \<Rightarrow> world \<Rightarrow> region_item list \<times> world" where
  "collect_account_region_quotas rem quota_config usage_collectors collect_limit collect_usage
       account_id region w =
     (let usage_items =
            (if collect_usage
             then collect_usage_items rem quota_config usage_collectors account_id region
             else [])
      in if collect_limit then
           (case fold (collect_service_limits rem account_id region) quota_config (region, [], w) of
              (client_region, rs, w1) \<Rightarrow> (usage_items @ map Result rs, w1))
         else (usage_items, w))"

text \<open>
  \<open>_collect_account_quotas\<close>: an account without regions is given the one region
  \<open>us-east-1\<close>; a failure of the region provider ends the account with no results.
\<close>

definition collect_account_quotas ::
  "remote \<Rightarrow> (string \<times> service_config) list \<Rightarrow> string list \<Rightarrow> bool \<Rightarrow> bool
     \<Rightarrow> string \<Rightarrow> world \<Rightarrow> region_item list \<times> world" where
  "collect_account_quotas rem quota_config usage_collectors collect_limit collect_usage
       account_id w =
     (case get_regions_api rem account_id of
        Inl e \<Rightarrow> ([], w)
      | Inr regions \<Rightarrow>
          fold (\<lambda>region st.
                  case st of (account_results, w0) \<Rightarrow>
                    (case collect_account_region_quotas rem quota_config usage_collectors
                            collect_limit collect_usage account_id region w0 of
                       (items, w1) \<Rightarrow> (account_results @ items, w1)))
            (if regions = [] then [''us-east-1''] else regions)
            ([], w))"

text \<open>
  Used in the proofs: the label set of a result, and the condition under which the first
  loop of \<open>set_usage_data\<close> writes the samples of a result at a label set.
\<close>

definition result_labels :: "QuotaResult \<Rightarrow> labels" where
  "result_labels r =
     (''aws'', res_account_id r, res_region r, res_service r, res_quota_name r, res_quota_code r)"

definition usage_match ::
  "string \<Rightarrow> string \<Rightarrow> string \<Rightarrow> usage_snapshot \<Rightarrow> labels \<Rightarrow> QuotaResult \<Rightarrow> bool" where
  "usage_match a reg s u lbls r \<longleftrightarrow>
     is_success r \<and>
     (case res_quota_info r of
        None \<Rightarrow> False
      | Some qi \<Rightarrow> info_account_id qi = Some a \<and> info_region qi = Some reg) \<and>
     res_service r = s \<and> map_of u (res_quota_code r) \<noteq> None \<and>
     lbls = (''aws'', a, reg, s, res_quota_name r, res_quota_code r)"

text \<open>
  Used in the proofs: what a discovery call holds about one account, namely its entry in
  the result, its cache file, the probe calls made for it, and the ttl.
\<close>

definition account_view ::
  "string \<Rightarrow> (string \<rightharpoonup> string list) \<times> ActiveRegionDiscoverer
     \<Rightarrow> string list option \<times> region_cache_file option \<times> (string \<times> string) list \<times> int" where
  "account_view a st =
     (fst st a, region_files (snd st) a, filter (\<lambda>p. fst p = a) (probes (snd st)),
      region_cache_ttl (snd st))"

text \<open>
  Used in the proofs: the samples that a skipped result with usage value \<open>uv\<close> leaves at
  its label set.
\<close>

definition skipped_sample :: "QuotaCollector \<Rightarrow> labels \<Rightarrow> real \<Rightarrow> bool" where
  "skipped_sample c lbls uv \<longleftrightarrow>
     quota_usage c lbls = Some (Num uv) \<and> quota_usage_percent c lbls = Some NaN"

section \<open>Facts about strings\<close>

lemma startswith_iff: "startswith k s \<longleftrightarrow> (\<exists>ss. s = k @ ss)"
  by (induction k s rule: startswith.induct) auto

lemma py_in_iff: "py_in k s \<longleftrightarrow> (\<exists>ps ss. s = ps @ k @ ss)"
proof (induction s)
  case Nil
  then show ?case by auto
next
  case (Cons c cs)
  show ?case
  proof
    assume "py_in k (c # cs)"
    then consider "startswith k (c # cs)" | "py_in k cs" by auto
    then show "\<exists>ps ss. c # cs = ps @ k @ ss"
    proof cases
      case 1
      then obtain ss where "c # cs = k @ ss" using startswith_iff by blast
      then have "c # cs = [] @ k @ ss" by simp
      then show ?thesis by blast
    next
      case 2
      then obtain ps ss where "cs = ps @ k @ ss" using Cons.IH by blast
      then have "c # cs = (c # ps) @ k @ ss" by simp
      then show ?thesis by blast
    qed
  next
    assume "\<exists>ps ss. c # cs = ps @ k @ ss"
    then obtain ps ss where e: "c # cs = ps @ k @ ss" by blast
    show "py_in k (c # cs)"
    proof (cases ps)
      case Nil
      with e have "startswith k (c # cs)" using startswith_iff by auto
      then show ?thesis by simp
    next
      case (Cons p ps')
      with e have "cs = ps' @ k @ ss" by simp
      then have "py_in k cs" using Cons.IH by blast
      then show ?thesis by simp
    qed
  qed
qed

section \<open>Discovery matching\<close>

lemma matches_rules_iff:
  "matches_rules rules quota_name \<longleftrightarrow>
     (\<exists>rule \<in> set rules. \<exists>keywords. name_contains rule = Some keywords \<and>
        (\<forall>keyword \<in> set keywords. py_in (lower keyword) (lower quota_name)))"
  by (induction rules) (auto simp: list_all_iff split: option.splits)

text \<open>
  C9. Discovery keeps a catalog entry exactly when some rule has all of its keywords as
  case-insensitive substrings of the entry's name: the discovered list is the catalog,
  in order, restricted to the entries with such a rule, so an entry matching no rule is
  left out. With the rule \<open>name_contains = [notebook, usage]\<close> the name
  "Notebook instance usage" matches and "Notebook instance count" does not.
\<close>

theorem discovery_keeps_exactly_matching:
  "discover_quotas config (Inr all_quotas) =
     map (discovered_item config)
       (filter (\<lambda>quota. \<exists>rule \<in> set (match_rules config). \<exists>keywords.
                  name_contains rule = Some keywords \<and>
                  (\<forall>keyword \<in> set keywords. \<exists>ps ss.
                     lower (cat_quota_name quota) = ps @ lower keyword @ ss))
          all_quotas)
   \<and> matches_rules [\<lparr>name_contains = Some [''notebook'', ''usage'']\<rparr>] ''Notebook instance usage''
   \<and> \<not> matches_rules [\<lparr>name_contains = Some [''notebook'', ''usage'']\<rparr>] ''Notebook instance count''"
proof -
  have "discover_quotas config (Inr all_quotas) =
     map (discovered_item config)
       (filter (\<lambda>quota. \<exists>rule \<in> set (match_rules config). \<exists>keywords.
                  name_contains rule = Some keywords \<and>
                  (\<forall>keyword \<in> set keywords. \<exists>ps ss.
                     lower (cat_quota_name quota) = ps @ lower keyword @ ss))
          all_quotas)"
    by (simp add: matches_rules_iff py_in_iff)
  moreover have
    "matches_rules [\<lparr>name_contains = Some [''notebook'', ''usage'']\<rparr>] ''Notebook instance usage''"
    by code_simp
  moreover have
    "\<not> matches_rules [\<lparr>name_contains = Some [''notebook'', ''usage'']\<rparr>] ''Notebook instance count''"
    by code_simp
  ultimately show ?thesis by blast
qed

theorem discovery_keeps_exactly_matching_witness:
  "map item_quota_code
     (map (discovered_item
        \<lparr>enabled = True, match_rules = [\<lparr>name_contains = Some [''notebook'', ''usage'']\<rparr>],
         default_priority = ''high''\<rparr>)
       (filter (\<lambda>quota. \<exists>rule \<in> set (match_rules
                    \<lparr>enabled = True,
                     match_rules = [\<lparr>name_contains = Some [''notebook'', ''usage'']\<rparr>],
                     default_priority = ''high''\<rparr>). \<exists>keywords.
                  name_contains rule = Some keywords \<and>
                  (\<forall>keyword \<in> set keywords. \<exists>ps ss.
                     lower (cat_quota_name quota) = ps @ lower keyword @ ss))
          [\<lparr>cat_quota_code = ''L-1'', cat_quota_name = ''Notebook instance usage'',
             cat_value = 4, cat_unit = ''None''\<rparr>,
           \<lparr>cat_quota_code = ''L-2'', cat_quota_name = ''Notebook instance count'',
             cat_value = 8, cat_unit = ''None''\<rparr>])) = [''L-1'']"
proof -
  let ?config = "\<lparr>enabled = True,
         match_rules = [\<lparr>name_contains = Some [''notebook'', ''usage'']\<rparr>],
         default_priority = ''high''\<rparr>"
  let ?catalog = "[\<lparr>cat_quota_code = ''L-1'', cat_quota_name = ''Notebook instance usage'',
                cat_value = 4, cat_unit = ''None''\<rparr>,
              \<lparr>cat_quota_code = ''L-2'', cat_quota_name = ''Notebook instance count'',
                cat_value = 8, cat_unit = ''None''\<rparr>]"
  have run: "map item_quota_code (discover_quotas ?config (Inr ?catalog)) = [''L-1'']"
    by code_simp
  have "discover_quotas ?config (Inr ?catalog) =
     map (discovered_item ?config)
       (filter (\<lambda>quota. \<exists>rule \<in> set (match_rules ?config). \<exists>keywords.
                  name_contains rule = Some keywords \<and>
                  (\<forall>keyword \<in> set keywords. \<exists>ps ss.
                     lower (cat_quota_name quota) = ps @ lower keyword @ ss))
          ?catalog)"
    using discovery_keeps_exactly_matching [of ?config ?catalog] by (rule conjunct1)
  then show ?thesis using run by (simp only:)
qed

section \<open>Cache expiry\<close>

text \<open>
  C5, as stated, fails at the instant \<open>now = set_time + ttl\<close>: an entry set at time 0
  with ttl 10 is still returned by a read at time 10, since the read path compares with
  \<open>>\<close>.
\<close>

theorem cache_expiry_boundary_counterexample:
  "(10::real) \<ge> 0 + of_int 10 \<and>
   fst (MemoryCache_get 10 ''k'' (MemoryCache_set 0 ''k'' True 10 Map.empty)) = Some True"
  by (simp add: MemoryCache_get_def MemoryCache_set_def)

text \<open>
  C5 (amended). In both cache layers a read after a write returns the written value while
  \<open>now \<le> set_time + ttl\<close> and returns absent once \<open>now > set_time + ttl\<close>, with no
  explicit delete. The in-memory cache removes the expired entry on that read; the
  file-backed cache, whose ttl is the \<open>cache_ttl\<close> of the instance, reports absent and
  leaves the file in place.
\<close>

theorem cache_get_after_set:
  "(now \<le> set_time + of_int ttl \<longrightarrow>
      MemoryCache_get now k (MemoryCache_set set_time k v ttl mc)
        = (Some v, MemoryCache_set set_time k v ttl mc))
   \<and> (now > set_time + of_int ttl \<longrightarrow>
      MemoryCache_get now k (MemoryCache_set set_time k v ttl mc) = (None, mc(k := None)))
   \<and> (now \<le> set_time + of_int (cache_ttl fc) \<longrightarrow>
      QuotaLimitCache_get now (QuotaLimitCache_set set_time fc account_id region service quota_code qd)
        account_id region service quota_code = Some qd)
   \<and> (now > set_time + of_int (cache_ttl fc) \<longrightarrow>
      QuotaLimitCache_get now (QuotaLimitCache_set set_time fc account_id region service quota_code qd)
        account_id region service quota_code = None
      \<and> limit_files (QuotaLimitCache_set set_time fc account_id region service quota_code qd)
           (account_id, region, service) \<noteq> None)"
proof -
  have m1: "now \<le> set_time + of_int ttl \<longrightarrow>
      MemoryCache_get now k (MemoryCache_set set_time k v ttl mc)
        = (Some v, MemoryCache_set set_time k v ttl mc)"
    by (simp add: MemoryCache_get_def MemoryCache_set_def)
  have m2: "now > set_time + of_int ttl \<longrightarrow>
      MemoryCache_get now k (MemoryCache_set set_time k v ttl mc) = (None, mc(k := None))"
    by (simp add: MemoryCache_get_def MemoryCache_set_def)
  have f1: "now \<le> set_time + of_int (cache_ttl fc) \<longrightarrow>
      QuotaLimitCache_get now (QuotaLimitCache_set set_time fc account_id region service quota_code qd)
        account_id region service quota_code = Some qd"
    by (simp add: QuotaLimitCache_get_def QuotaLimitCache_set_def Let_def update_conv')
  have f2: "now > set_time + of_int (cache_ttl fc) \<longrightarrow>
      QuotaLimitCache_get now (QuotaLimitCache_set set_time fc account_id region service quota_code qd)
        account_id region service quota_code = None
      \<and> limit_files (QuotaLimitCache_set set_time fc account_id region service quota_code qd)
           (account_id, region, service) \<noteq> None"
    by (simp add: QuotaLimitCache_get_def QuotaLimitCache_set_def Let_def)
  from m1 m2 f1 f2 show ?thesis by blast
qed

theorem cache_get_after_set_witness:
  "MemoryCache_get 5 ''k'' (MemoryCache_set 0 ''k'' True 10 Map.empty)
     = (Some True, MemoryCache_set 0 ''k'' True 10 Map.empty)
   \<and> MemoryCache_get 11 ''k'' (MemoryCache_set 0 ''k'' True 10 Map.empty) = (None, Map.empty)
   \<and> QuotaLimitCache_get 5
        (QuotaLimitCache_set 0 \<lparr>cache_ttl = 10, limit_files = Map.empty\<rparr> ''a'' ''r'' ''s'' ''q''
           \<lparr>info_quota_code = ''q'', info_quota_name = ''n'', info_value = 3, info_unit = None,
            info_adjustable = None, info_global_quota = None, info_account_id = None,
            info_region = None\<rparr>)
        ''a'' ''r'' ''s'' ''q''
     = Some \<lparr>info_quota_code = ''q'', info_quota_name = ''n'', info_value = 3, info_unit = None,
            info_adjustable = None, info_global_quota = None, info_account_id = None,
            info_region = None\<rparr>
   \<and> QuotaLimitCache_get 11
        (QuotaLimitCache_set 0 \<lparr>cache_ttl = 10, limit_files = Map.empty\<rparr> ''a'' ''r'' ''s'' ''q''
           \<lparr>info_quota_code = ''q'', info_quota_name = ''n'', info_value = 3, info_unit = None,
            info_adjustable = None, info_global_quota = None, info_account_id = None,
            info_region = None\<rparr>)
        ''a'' ''r'' ''s'' ''q''
     = None"
proof -
  let ?fc = "\<lparr>cache_ttl = 10, limit_files = Map.empty\<rparr>"
  let ?qd = "\<lparr>info_quota_code = ''q'', info_quota_name = ''n'', info_value = 3, info_unit = None,
            info_adjustable = None, info_global_quota = None, info_account_id = None,
            info_region = None\<rparr>"
  have a: "(5::real) \<le> 0 + of_int 10" by simp
  have b: "(11::real) > 0 + of_int 10" by simp
  have c: "cache_ttl ?fc = 10" by simp
  have e: "(Map.empty :: bool MemoryCache)(''k'' := None) = Map.empty" by simp
  from cache_get_after_set
         [of 5 0 10 "''k''" True Map.empty ?fc "''a''" "''r''" "''s''" "''q''" ?qd]
       cache_get_after_set
         [of 11 0 10 "''k''" True Map.empty ?fc "''a''" "''r''" "''s''" "''q''" ?qd]
       a b c e
  show ?thesis by (simp only: simp_thms)
qed

section \<open>Usage without a limit\<close>

lemma usage_for_success_keeps:
  "results (usage_for_success a reg s u r c) = results c"
  "quota_limit (usage_for_success a reg s u r c) = quota_limit c"
  "usage_data (usage_for_success a reg s u r c) = usage_data c"
  by (simp_all add: usage_for_success_def Let_def split: option.splits)

lemma usage_for_skipped_keeps:
  "results (usage_for_skipped a reg s u r c) = results c"
  "quota_limit (usage_for_skipped a reg s u r c) = quota_limit c"
  "usage_data (usage_for_skipped a reg s u r c) = usage_data c"
  by (simp_all add: usage_for_skipped_def Let_def split: option.splits)

lemma fold_usage_for_success_keeps:
  "results (fold (usage_for_success a reg s u) xs c) = results c"
  "quota_limit (fold (usage_for_success a reg s u) xs c) = quota_limit c"
  "usage_data (fold (usage_for_success a reg s u) xs c) = usage_data c"
  by (induction xs arbitrary: c) (simp_all add: usage_for_success_keeps)

lemma fold_usage_for_skipped_keeps:
  "results (fold (usage_for_skipped a reg s u) xs c) = results c"
  "quota_limit (fold (usage_for_skipped a reg s u) xs c) = quota_limit c"
  "usage_data (fold (usage_for_skipped a reg s u) xs c) = usage_data c"
  by (induction xs arbitrary: c) (simp_all add: usage_for_skipped_keeps)

lemma set_usage_data_keeps:
  "results (set_usage_data a reg s u c) = results c"
  "quota_limit (set_usage_data a reg s u c) = quota_limit c"
  by (simp_all add: set_usage_data_def Let_def fold_usage_for_success_keeps fold_usage_for_skipped_keeps)

lemma usage_for_skipped_establishes:
  assumes "is_skipped r" "map_of u (res_quota_code r) = Some uv"
  shows "skipped_sample
           (usage_for_skipped (res_account_id r) (res_region r) (res_service r) u r c)
           (''aws'', res_account_id r, res_region r, res_service r, res_quota_name r, res_quota_code r)
           uv"
  using assms by (simp add: usage_for_skipped_def skipped_sample_def Let_def)

lemma usage_for_skipped_preserves:
  assumes "skipped_sample c (p, a, reg, s, n, q) uv" "map_of u q = Some uv"
  shows "skipped_sample (usage_for_skipped a reg s u x c) (p, a, reg, s, n, q) uv"
  using assms
  by (auto simp: usage_for_skipped_def skipped_sample_def Let_def split: option.splits)

lemma fold_usage_for_skipped_preserves:
  assumes "skipped_sample c (p, a, reg, s, n, q) uv" "map_of u q = Some uv"
  shows "skipped_sample (fold (usage_for_skipped a reg s u) xs c) (p, a, reg, s, n, q) uv"
  using assms
  by (induction xs arbitrary: c) (simp_all add: usage_for_skipped_preserves)

lemma fold_usage_for_skipped_sets:
  assumes "r \<in> set xs" "is_skipped r" "map_of u (res_quota_code r) = Some uv"
  shows "skipped_sample
           (fold (usage_for_skipped (res_account_id r) (res_region r) (res_service r) u) xs c)
           (''aws'', res_account_id r, res_region r, res_service r, res_quota_name r, res_quota_code r)
           uv"
  using assms
proof (induction xs arbitrary: c)
  case Nil
  then show ?case by simp
next
  case (Cons x xs)
  show ?case
  proof (cases "x = r")
    case True
    then show ?thesis
      using Cons.prems usage_for_skipped_establishes [of r u uv c]
      by (simp add: fold_usage_for_skipped_preserves)
  next
    case False
    then have "r \<in> set xs" using Cons.prems by simp
    then show ?thesis using Cons.IH Cons.prems by simp
  qed
qed

lemma add_result_skipped:
  assumes "is_skipped r"
  shows "quota_limit (add_result r c) = quota_limit c" "results (add_result r c) = results c @ [r]"
  using assms by (simp_all add: add_result_def is_skipped_def is_success_def Let_def)

text \<open>
  C8. Adding a skipped result creates no limit sample. Once a skipped result is among the
  collected results, a usage snapshot for its account, region and service that holds its
  quota code gives it a usage sample with that value and a not-a-number percent sample,
  and leaves the limit series as it was.
\<close>

theorem skipped_usage_without_limit:
  assumes "is_skipped r" and "map_of usage (res_quota_code r) = Some uv"
  shows "quota_limit (add_result r c) = quota_limit c
       \<and> (r \<in> set (results c') \<longrightarrow>
           quota_usage
              (set_usage_data (res_account_id r) (res_region r) (res_service r) usage c')
              (''aws'', res_account_id r, res_region r, res_service r, res_quota_name r, res_quota_code r)
             = Some (Num uv)
         \<and> quota_usage_percent
              (set_usage_data (res_account_id r) (res_region r) (res_service r) usage c')
              (''aws'', res_account_id r, res_region r, res_service r, res_quota_name r, res_quota_code r)
             = Some NaN
         \<and> quota_limit
              (set_usage_data (res_account_id r) (res_region r) (res_service r) usage c')
             = quota_limit c')"
proof -
  have a: "quota_limit (add_result r c) = quota_limit c"
    using assms(1) by (rule add_result_skipped)
  have b: "skipped_sample
             (set_usage_data (res_account_id r) (res_region r) (res_service r) usage c')
             (''aws'', res_account_id r, res_region r, res_service r, res_quota_name r, res_quota_code r)
             uv" if "r \<in> set (results c')"
    using that assms
    by (simp add: set_usage_data_def Let_def fold_usage_for_success_keeps fold_usage_for_skipped_sets)
  show ?thesis using a b by (simp add: skipped_sample_def set_usage_data_keeps)
qed

theorem skipped_usage_without_limit_witness:
  "quota_usage
     (set_usage_data ''a'' ''r'' ''s'' [(''q'', 7)]
        (add_result
        \<lparr>res_service = ''s'', res_quota_code = ''q'', res_quota_name = ''n'', res_status = SKIPPED,
            res_account_id = ''a'', res_region = ''r'', res_reason = Some ''not_applicable'',
            res_quota_info = None,
            res_error = None\<rparr>
           QuotaCollector_init))
     (''aws'', ''a'', ''r'', ''s'', ''n'', ''q'') = Some (Num 7)
   \<and> quota_usage_percent
     (set_usage_data ''a'' ''r'' ''s'' [(''q'', 7)]
        (add_result
        \<lparr>res_service = ''s'', res_quota_code = ''q'', res_quota_name = ''n'', res_status = SKIPPED,
            res_account_id = ''a'', res_region = ''r'', res_reason = Some ''not_applicable'',
            res_quota_info = None,
            res_error = None\<rparr>
           QuotaCollector_init))
     (''aws'', ''a'', ''r'', ''s'', ''n'', ''q'') = Some NaN
   \<and> quota_limit
     (set_usage_data ''a'' ''r'' ''s'' [(''q'', 7)]
        (add_result
        \<lparr>res_service = ''s'', res_quota_code = ''q'', res_quota_name = ''n'', res_status = SKIPPED,
            res_account_id = ''a'', res_region = ''r'', res_reason = Some ''not_applicable'',
            res_quota_info = None,
            res_error = None\<rparr>
           QuotaCollector_init))
     (''aws'', ''a'', ''r'', ''s'', ''n'', ''q'') = None"
proof -
  let ?r = "\<lparr>res_service = ''s'', res_quota_code = ''q'', res_quota_name = ''n'', res_status = SKIPPED,
         res_account_id = ''a'', res_region = ''r'', res_reason = Some ''not_applicable'',
         res_quota_info = None,
         res_error = None\<rparr>"
  let ?c = "add_result ?r QuotaCollector_init"
  have k: "is_skipped ?r" by (simp add: is_skipped_def)
  have u: "map_of [(''q'', 7::real)] (res_quota_code ?r) = Some 7" by simp
  have m: "?r \<in> set (results ?c)"
    by (simp add: add_result_def is_success_def is_skipped_def QuotaCollector_init_def Let_def)
  have l: "quota_limit QuotaCollector_init = Map.empty" by (simp add: QuotaCollector_init_def)
  from skipped_usage_without_limit [OF k u, of QuotaCollector_init ?c] m l
  show ?thesis by simp
qed

section \<open>Percent derivation\<close>

lemma add_result_success_percent:
  assumes "is_success r"
  shows "quota_usage_percent (add_result r c)
           (''aws'', res_account_id r, res_region r, res_service r, res_quota_name r, res_quota_code r) =
         Some (case get_usage_value c (res_account_id r) (res_region r) (res_service r) (res_quota_code r) of
                 None \<Rightarrow> NaN
               | Some usage_value \<Rightarrow>
                   if limit_value_of (res_quota_info r) > 0
                   then Num (usage_value / limit_value_of (res_quota_info r) * 100)
                   else NaN)"
  using assms
  by (simp add: add_result_def get_usage_value_def Let_def split: option.splits)

lemma usage_for_success_percent:
  assumes "quota_usage_percent (usage_for_success a reg s u r c) lbls = Some v"
  shows "quota_usage_percent c lbls = Some v \<or>
         (is_success r \<and> lbls = (''aws'', a, reg, s, res_quota_name r, res_quota_code r) \<and>
          (\<exists>uv. map_of u (res_quota_code r) = Some uv \<and>
                v = (if limit_value_of (res_quota_info r) > 0
                     then Num (uv / limit_value_of (res_quota_info r) * 100) else NaN)))"
  using assms
  by (auto simp: usage_for_success_def Let_def split: option.splits if_splits)

lemma fold_usage_for_success_percent:
  assumes "quota_usage_percent (fold (usage_for_success a reg s u) xs c) lbls = Some v"
  shows "quota_usage_percent c lbls = Some v \<or>
         (\<exists>r \<in> set xs. is_success r \<and>
            lbls = (''aws'', a, reg, s, res_quota_name r, res_quota_code r) \<and>
            (\<exists>uv. map_of u (res_quota_code r) = Some uv \<and>
                  v = (if limit_value_of (res_quota_info r) > 0
                       then Num (uv / limit_value_of (res_quota_info r) * 100) else NaN)))"
  using assms
proof (induction xs arbitrary: c)
  case Nil
  then show ?case by simp
next
  case (Cons x xs)
  from Cons.prems have
    "quota_usage_percent (fold (usage_for_success a reg s u) xs (usage_for_success a reg s u x c)) lbls = Some v"
    by simp
  from Cons.IH [OF this] show ?case
  proof
    assume "quota_usage_percent (usage_for_success a reg s u x c) lbls = Some v"
    from usage_for_success_percent [OF this] show ?thesis by auto
  next
    assume "\<exists>r \<in> set xs. is_success r \<and>
            lbls = (''aws'', a, reg, s, res_quota_name r, res_quota_code r) \<and>
            (\<exists>uv. map_of u (res_quota_code r) = Some uv \<and>
                  v = (if limit_value_of (res_quota_info r) > 0
                       then Num (uv / limit_value_of (res_quota_info r) * 100) else NaN))"
    then show ?thesis by auto
  qed
qed

lemma fold_usage_for_skipped_percent:
  assumes "quota_usage_percent (fold (usage_for_skipped a reg s u) xs c) lbls = Some v"
  shows "quota_usage_percent c lbls = Some v \<or> v = NaN"
  using assms
proof (induction xs arbitrary: c)
  case Nil
  then show ?case by simp
next
  case (Cons x xs)
  from Cons.prems have
    "quota_usage_percent (fold (usage_for_skipped a reg s u) xs (usage_for_skipped a reg s u x c)) lbls = Some v"
    by simp
  from Cons.IH [OF this] show ?case
    by (auto simp: usage_for_skipped_def Let_def split: option.splits if_splits)
qed

lemma set_usage_data_percent:
  assumes "quota_usage_percent (set_usage_data a reg s u c) lbls = Some v"
  shows "quota_usage_percent c lbls = Some v \<or> v = NaN \<or>
         (\<exists>r \<in> set (results c). is_success r \<and>
            lbls = (''aws'', a, reg, s, res_quota_name r, res_quota_code r) \<and>
            (\<exists>uv. map_of u (res_quota_code r) = Some uv \<and>
                  limit_value_of (res_quota_info r) > 0 \<and>
                  v = Num (uv / limit_value_of (res_quota_info r) * 100)))"
proof -
  let ?c1 = "c\<lparr>usage_data := (usage_data c)((a, reg, s) \<mapsto> u)\<rparr>"
  let ?c2 = "fold (usage_for_success a reg s u) (results ?c1) ?c1"
  from assms have "quota_usage_percent (fold (usage_for_skipped a reg s u) (results ?c2) ?c2) lbls = Some v"
    by (simp add: set_usage_data_def Let_def)
  from fold_usage_for_skipped_percent [OF this]
  show ?thesis
  proof
    assume "quota_usage_percent ?c2 lbls = Some v"
    from fold_usage_for_success_percent [OF this]
    show ?thesis by (auto split: if_splits)
  next
    assume "v = NaN"
    then show ?thesis by simp
  qed
qed

text \<open>
  C7. When a success result is added, its percent sample is \<open>usage / limit * 100\<close> if a
  usage value is found for its account, region, service and quota code and the limit is
  positive, and not-a-number if no usage value is found or the limit is not positive.
  A usage snapshot arriving later changes a percent sample only to not-a-number or to
  \<open>usage / limit * 100\<close> of a collected success result with a positive limit: the
  percent is never stored apart from this derivation. With limit 200 and usage 50 the
  sample is 25; with limit 0 it is not-a-number.
\<close>

theorem usage_percent_is_derived:
  "(is_success r \<longrightarrow>
      quota_usage_percent (add_result r c)
        (''aws'', res_account_id r, res_region r, res_service r, res_quota_name r, res_quota_code r) =
      Some (case get_usage_value c (res_account_id r) (res_region r) (res_service r) (res_quota_code r) of
              None \<Rightarrow> NaN
            | Some usage_value \<Rightarrow>
                if limit_value_of (res_quota_info r) > 0
                then Num (usage_value / limit_value_of (res_quota_info r) * 100)
                else NaN))
   \<and> (quota_usage_percent (set_usage_data a reg s u c) lbls = Some v \<longrightarrow>
        quota_usage_percent c lbls = Some v \<or> v = NaN \<or>
        (\<exists>r' \<in> set (results c). is_success r' \<and>
            lbls = (''aws'', a, reg, s, res_quota_name r', res_quota_code r') \<and>
            (\<exists>uv. map_of u (res_quota_code r') = Some uv \<and>
                  limit_value_of (res_quota_info r') > 0 \<and>
                  v = Num (uv / limit_value_of (res_quota_info r') * 100))))"
  using add_result_success_percent [of r c] set_usage_data_percent [of a reg s u c lbls v]
  by blast

theorem usage_percent_is_derived_witness:
  "quota_usage_percent
     (add_result
        \<lparr>res_service = ''s'', res_quota_code = ''q'', res_quota_name = ''n'', res_status = SUCCESS,
         res_account_id = ''a'', res_region = ''r'', res_reason = None,
         res_quota_info = Some \<lparr>info_quota_code = ''q'', info_quota_name = ''n'', info_value = 200,
           info_unit = None, info_adjustable = None, info_global_quota = None,
           info_account_id = Some ''a'', info_region = Some ''r''\<rparr>,
         res_error = None\<rparr>
        (set_usage_data ''a'' ''r'' ''s'' [(''q'', 50)] QuotaCollector_init))
     (''aws'', ''a'', ''r'', ''s'', ''n'', ''q'') = Some (Num 25)
   \<and> quota_usage_percent
     (add_result
        \<lparr>res_service = ''s'', res_quota_code = ''q'', res_quota_name = ''n'', res_status = SUCCESS,
         res_account_id = ''a'', res_region = ''r'', res_reason = None,
         res_quota_info = Some \<lparr>info_quota_code = ''q'', info_quota_name = ''n'', info_value = 0,
           info_unit = None, info_adjustable = None, info_global_quota = None,
           info_account_id = Some ''a'', info_region = Some ''r''\<rparr>,
         res_error = None\<rparr>
        (set_usage_data ''a'' ''r'' ''s'' [(''q'', 50)] QuotaCollector_init))
     (''aws'', ''a'', ''r'', ''s'', ''n'', ''q'') = Some NaN
   \<and> quota_usage_percent
     (set_usage_data ''a'' ''r'' ''s'' [(''q'', 50)]
        (add_result
        \<lparr>res_service = ''s'', res_quota_code = ''q'', res_quota_name = ''n'', res_status = SUCCESS,
            res_account_id = ''a'', res_region = ''r'', res_reason = None,
            res_quota_info = Some \<lparr>info_quota_code = ''q'', info_quota_name = ''n'', info_value = 200,
              info_unit = None, info_adjustable = None, info_global_quota = None,
              info_account_id = Some ''a'', info_region = Some ''r''\<rparr>,
            res_error = None\<rparr>
           QuotaCollector_init))
     (''aws'', ''a'', ''r'', ''s'', ''n'', ''q'') = Some (Num 25)
   \<and> (\<exists>r' \<in> set (results (add_result
        \<lparr>res_service = ''s'', res_quota_code = ''q'', res_quota_name = ''n'', res_status = SUCCESS,
            res_account_id = ''a'', res_region = ''r'', res_reason = None,
            res_quota_info = Some \<lparr>info_quota_code = ''q'', info_quota_name = ''n'', info_value = 200,
              info_unit = None, info_adjustable = None, info_global_quota = None,
              info_account_id = Some ''a'', info_region = Some ''r''\<rparr>,
            res_error = None\<rparr>
           QuotaCollector_init)).
        is_success r' \<and> limit_value_of (res_quota_info r') > 0 \<and>
        Num 25 = Num (50 / limit_value_of (res_quota_info r') * 100))"
proof -
  let ?qi = "\<lambda>x. \<lparr>info_quota_code = ''q'', info_quota_name = ''n'', info_value = x,
           info_unit = None, info_adjustable = None, info_global_quota = None,
           info_account_id = Some ''a'', info_region = Some ''r''\<rparr>"
  let ?r = "\<lambda>x. \<lparr>res_service = ''s'', res_quota_code = ''q'', res_quota_name = ''n'', res_status = SUCCESS,
         res_account_id = ''a'', res_region = ''r'', res_reason = None,
         res_quota_info = Some (?qi x), res_error = None\<rparr>"
  let ?c = "set_usage_data ''a'' ''r'' ''s'' [(''q'', 50)] QuotaCollector_init"
  let ?d = "add_result (?r 200) QuotaCollector_init"
  let ?l = "(''aws'', ''a'', ''r'', ''s'', ''n'', ''q'')"
  have s: "is_success (?r x)" for x by (simp add: is_success_def)
  have u: "get_usage_value ?c ''a'' ''r'' ''s'' ''q'' = Some 50"
    by (simp add: get_usage_value_def set_usage_data_def QuotaCollector_init_def)
  have p1: "quota_usage_percent (add_result (?r 200) ?c) ?l = Some (Num 25)"
    using usage_percent_is_derived [of "?r 200" ?c] s [of 200] u
    by (simp add: limit_value_of_def)
  have p2: "quota_usage_percent (add_result (?r 0) ?c) ?l = Some NaN"
    using usage_percent_is_derived [of "?r 0" ?c] s [of 0] u
    by (simp add: limit_value_of_def)
  have p3: "quota_usage_percent (set_usage_data ''a'' ''r'' ''s'' [(''q'', 50)] ?d) ?l
       = Some (Num 25)"
    by (simp add: set_usage_data_def add_result_def QuotaCollector_init_def is_success_def
          is_skipped_def get_usage_value_def usage_for_success_def usage_for_skipped_def
          limit_value_of_def Let_def)
  have p0: "quota_usage_percent ?d ?l = Some NaN"
    by (simp add: add_result_def QuotaCollector_init_def is_success_def get_usage_value_def Let_def)
  have p4: "\<exists>r' \<in> set (results ?d).
        is_success r' \<and> limit_value_of (res_quota_info r') > 0 \<and>
        Num 25 = Num (50 / limit_value_of (res_quota_info r') * 100)"
    using usage_percent_is_derived
            [of "?r 200" ?d "''a''" "''r''" "''s''" "[(''q'', 50)]" ?l "Num 25"] p3 p0
    by auto
  from p1 p2 p3 p4 show ?thesis by simp
qed

section \<open>Scheduler construction\<close>

text \<open>
  C4, as stated, fails: constructing a scheduler with the default intervals returns an
  instance, not an exception.
\<close>

theorem scheduler_constructed_counterexample:
  "QuotaScheduler_init 86400 3600 =
     Inr \<lparr>limit_interval = 86400, usage_interval = 3600, running = False,
          limit_thread = None, usage_thread = None\<rparr>"
  by (simp add: QuotaScheduler_init_def eval_annotation_def)

text \<open>
  C4 (amended). Constructing a scheduler never raises: the annotations on the two thread
  fields stand inside the body of \<open>__init__\<close>, where annotations are not evaluated, so
  the missing import of \<open>Optional\<close> does no harm. The constructor returns an instance that
  is not running and has no threads, and its status reports not running with neither
  loop alive. The same annotation at class level would raise \<open>NameError\<close> for
  \<open>Optional\<close>.
\<close>

theorem scheduler_init_completes:
  "QuotaScheduler_init li ui =
     Inr \<lparr>limit_interval = li, usage_interval = ui, running = False,
          limit_thread = None, usage_thread = None\<rparr>
   \<and> get_status \<lparr>limit_interval = li, usage_interval = ui, running = False,
          limit_thread = None, usage_thread = None\<rparr> = (False, li, ui, False, False)
   \<and> eval_annotation ClassScope scheduler_module_names [''Optional'', ''threading'']
       = Inl (NameError ''Optional'')"
proof -
  have "\<not> List.member scheduler_module_names ''Optional''"
    by (simp add: scheduler_module_names_def)
  moreover have "List.member scheduler_module_names ''threading''"
    by (simp add: scheduler_module_names_def)
  ultimately have "eval_annotation ClassScope scheduler_module_names [''Optional'', ''threading'']
       = Inl (NameError ''Optional'')"
    by (simp add: eval_annotation_def)
  then show ?thesis
    by (simp add: QuotaScheduler_init_def eval_annotation_def get_status_def)
qed

section \<open>Active-region cache\<close>

lemma load_account_cache_cong:
  assumes "region_files d a = region_files d' a" "region_cache_ttl d = region_cache_ttl d'"
  shows "load_account_cache now d a = load_account_cache now d' a"
  unfolding load_account_cache_def assms ..

lemma discover_account_other:
  assumes "fst acct \<noteq> a"
  shows "account_view a (discover_account env uc fr now acct st) = account_view a st"
proof -
  obtain b cr where acct: "acct = (b, cr)" by (cases acct)
  obtain res d where st: "st = (res, d)" by (cases st)
  from assms acct have ne: "b \<noteq> a" by simp
  show ?thesis
    unfolding acct st
    using ne
    by (simp add: discover_account_def account_view_def save_account_cache_def Let_def
          split: option.splits)
qed

lemma fold_discover_account_other:
  assumes "a \<notin> fst ` set accts"
  shows "account_view a (fold (discover_account env uc fr now) accts st) = account_view a st"
  using assms
proof (induction accts arbitrary: st)
  case Nil
  show ?case by simp
next
  case (Cons acct accts)
  from Cons.prems have ne: "fst acct \<noteq> a" and rest: "a \<notin> fst ` set accts" by auto
  show ?case
    using Cons.IH [OF rest] discover_account_other [OF ne] by simp
qed

lemma discover_account_cong:
  assumes "account_view a st = account_view a st'"
  shows "account_view a (discover_account env uc fr now (a, cr) st) =
         account_view a (discover_account env uc fr now (a, cr) st')"
proof -
  obtain res d where st: "st = (res, d)" by (cases st)
  obtain res' d' where st': "st' = (res', d')" by (cases st')
  from assms have f: "region_files d a = region_files d' a"
    and t: "region_cache_ttl d = region_cache_ttl d'"
    and r: "res a = res' a"
    and p: "filter (\<lambda>p. fst p = a) (probes d) = filter (\<lambda>p. fst p = a) (probes d')"
    by (simp_all add: account_view_def st st')
  have l: "load_account_cache now d a = load_account_cache now d' a"
    using f t by (rule load_account_cache_cong)
  show ?thesis
    unfolding st st'
    by (simp add: discover_account_def account_view_def save_account_cache_def Let_def l f t r p
          split: option.splits)
qed

lemma fold_discover_account_at:
  assumes "(a, cr) \<in> set accts" "distinct (map fst accts)"
  shows "account_view a (fold (discover_account env uc fr now) accts st) =
         account_view a (discover_account env uc fr now (a, cr) st)"
proof -
  from assms(1) obtain xs ys where sp: "accts = xs @ (a, cr) # ys"
    by (meson split_list)
  from assms(2) sp have nx: "a \<notin> fst ` set xs" and ny: "a \<notin> fst ` set ys"
    by auto
  let ?f = "discover_account env uc fr now"
  have "account_view a (fold ?f accts st) = account_view a (?f (a, cr) (fold ?f xs st))"
    unfolding sp using fold_discover_account_other [OF ny] by simp
  also have "\<dots> = account_view a (?f (a, cr) st)"
    using fold_discover_account_other [OF nx] by (rule discover_account_cong)
  finally show ?thesis .
qed

lemma discover_account_hit:
  assumes "\<not> key_missing (access_key cr)" "\<not> key_missing (secret_key cr)"
    and "load_account_cache now d a = Some regs"
  shows "discover_account env True False now (a, cr) (res, d) = (res(a \<mapsto> regs), d)"
  using assms by (simp add: discover_account_def)

lemma discover_account_probe:
  assumes "\<not> key_missing (access_key cr)" "\<not> key_missing (secret_key cr)"
    and "fr \<or> \<not> uc \<or> load_account_cache now d a = None"
  shows "account_view a (discover_account env uc fr now (a, cr) (res, d)) =
          (Some (filter (\<lambda>region. probe_ec2_usage env region (the (access_key cr)) (the (secret_key cr)))
                   (region_candidates env)),
           (if uc then Some (RegionJson (Some now)
                 (Some (filter (\<lambda>region. probe_ec2_usage env region (the (access_key cr)) (the (secret_key cr)))
                   (region_candidates env))))
            else region_files d a),
           filter (\<lambda>p. fst p = a) (probes d) @ map (Pair a) (region_candidates env),
           region_cache_ttl d)"
  using assms
  by (auto simp: discover_account_def account_view_def save_account_cache_def Let_def
        filter_map comp_def)

text \<open>
  C10. Let a first discovery call, with the cache in use, probe an account (no valid
  cache entry, or force-refresh), and let a second call follow with an age of at most the
  ttl (86400 seconds unless configured otherwise). Without force-refresh the second call
  makes no probe call for the account and returns the region list the first call found.
  With force-refresh the cache is not read: every candidate region is probed again and
  the result is what these probes find.
\<close>

theorem active_region_cache:
  assumes cand1: "region_candidates env1 \<noteq> []"
    and acct1: "(a, cr1) \<in> set (account_credentials env1)"
    and dist1: "distinct (map fst (account_credentials env1))"
    and keys1: "\<not> key_missing (access_key cr1)" "\<not> key_missing (secret_key cr1)"
    and probed: "fr1 \<or> load_account_cache now1 d0 a = None"
    and cand2: "region_candidates env2 \<noteq> []"
    and acct2: "(a, cr2) \<in> set (account_credentials env2)"
    and dist2: "distinct (map fst (account_credentials env2))"
    and keys2: "\<not> key_missing (access_key cr2)" "\<not> key_missing (secret_key cr2)"
    and age: "now2 - now1 \<le> of_int (region_cache_ttl d0)"
    and first: "first = discover_ec2_used_regions_from_provider env1 True fr1 now1 d0"
    and second: "second = discover_ec2_used_regions_from_provider env2 True False now2 (snd first)"
    and forced: "forced = discover_ec2_used_regions_from_provider env2 uc True now2 (snd first)"
  shows "fst first a =
           Some (filter (\<lambda>region. probe_ec2_usage env1 region (the (access_key cr1)) (the (secret_key cr1)))
                   (region_candidates env1))
       \<and> fst second a = fst first a
       \<and> filter (\<lambda>p. fst p = a) (probes (snd second)) = filter (\<lambda>p. fst p = a) (probes (snd first))
       \<and> fst forced a =
           Some (filter (\<lambda>region. probe_ec2_usage env2 region (the (access_key cr2)) (the (secret_key cr2)))
                   (region_candidates env2))
       \<and> filter (\<lambda>p. fst p = a) (probes (snd forced)) =
           filter (\<lambda>p. fst p = a) (probes (snd first)) @ map (Pair a) (region_candidates env2)"
proof -
  let ?used1 = "filter (\<lambda>region. probe_ec2_usage env1 region (the (access_key cr1)) (the (secret_key cr1)))
                   (region_candidates env1)"
  let ?used2 = "filter (\<lambda>region. probe_ec2_usage env2 region (the (access_key cr2)) (the (secret_key cr2)))
                   (region_candidates env2)"
  from acct1 have ne1: "account_credentials env1 \<noteq> []" by auto
  from acct2 have ne2: "account_credentials env2 \<noteq> []" by auto
  have f: "first = fold (discover_account env1 True fr1 now1) (account_credentials env1) (Map.empty, d0)"
    using cand1 ne1 first by (simp add: discover_ec2_used_regions_from_provider_def)
  have p1: "fr1 \<or> \<not> True \<or> load_account_cache now1 d0 a = None"
    using probed by simp
  have v1: "account_view a first =
          (Some ?used1, Some (RegionJson (Some now1) (Some ?used1)),
           filter (\<lambda>p. fst p = a) (probes d0) @ map (Pair a) (region_candidates env1),
           region_cache_ttl d0)"
    unfolding f
    using fold_discover_account_at [OF acct1 dist1, of env1 True fr1 now1 "(Map.empty, d0)"]
      discover_account_probe [OF keys1 p1, of env1 Map.empty]
    by simp
  then have r1: "fst first a = Some ?used1"
    and file1: "region_files (snd first) a = Some (RegionJson (Some now1) (Some ?used1))"
    and ttl1: "region_cache_ttl (snd first) = region_cache_ttl d0"
    by (simp_all add: account_view_def)
  have load2: "load_account_cache now2 (snd first) a = Some ?used1"
    using age by (simp add: load_account_cache_def file1 ttl1)
  have s: "second = fold (discover_account env2 True False now2) (account_credentials env2)
                      (Map.empty, snd first)"
    using cand2 ne2 second by (simp add: discover_ec2_used_regions_from_provider_def)
  have v2: "account_view a second = account_view a (Map.empty(a \<mapsto> ?used1), snd first)"
    unfolding s
    using fold_discover_account_at [OF acct2 dist2, of env2 True False now2 "(Map.empty, snd first)"]
      discover_account_hit [OF keys2 load2, of env2 Map.empty]
    by simp
  then have r2: "fst second a = Some ?used1"
    and pr2: "filter (\<lambda>p. fst p = a) (probes (snd second)) = filter (\<lambda>p. fst p = a) (probes (snd first))"
    by (simp_all add: account_view_def)
  have g: "forced = fold (discover_account env2 uc True now2) (account_credentials env2)
                      (Map.empty, snd first)"
    using cand2 ne2 forced by (simp add: discover_ec2_used_regions_from_provider_def)
  have p3: "True \<or> \<not> uc \<or> load_account_cache now2 (snd first) a = None" by simp
  have v3: "account_view a forced =
          (Some ?used2,
           (if uc then Some (RegionJson (Some now2) (Some ?used2)) else region_files (snd first) a),
           filter (\<lambda>p. fst p = a) (probes (snd first)) @ map (Pair a) (region_candidates env2),
           region_cache_ttl (snd first))"
    unfolding g
    using fold_discover_account_at [OF acct2 dist2, of env2 uc True now2 "(Map.empty, snd first)"]
      discover_account_probe [OF keys2 p3, of env2 Map.empty]
    by simp
  then have r3: "fst forced a = Some ?used2"
    and pr3: "filter (\<lambda>p. fst p = a) (probes (snd forced)) =
           filter (\<lambda>p. fst p = a) (probes (snd first)) @ map (Pair a) (region_candidates env2)"
    by (simp_all add: account_view_def)
  from r1 r2 pr2 r3 pr3 show ?thesis by simp
qed

theorem active_region_cache_witness:
  "fst (discover_ec2_used_regions_from_provider
          \<lparr>region_candidates = [''r1'', ''r2''],
           account_credentials = [(''a'', \<lparr>access_key = Some ''k'', secret_key = Some ''s''\<rparr>)],
           describe_instances = (\<lambda>region ak sk. if region = ''r1'' then Inr [1] else Inr [])\<rparr>
          True False 3600
          (snd (discover_ec2_used_regions_from_provider
             \<lparr>region_candidates = [''r1'', ''r2''],
              account_credentials = [(''a'', \<lparr>access_key = Some ''k'', secret_key = Some ''s''\<rparr>)],
              describe_instances = (\<lambda>region ak sk. if region = ''r1'' then Inr [1] else Inr [])\<rparr>
             True False 0
             \<lparr>region_cache_ttl = 86400, region_files = Map.empty, probes = []\<rparr>))) ''a''
     = Some [''r1'']
   \<and> filter (\<lambda>p. fst p = ''a'')
       (probes (snd (discover_ec2_used_regions_from_provider
          \<lparr>region_candidates = [''r1'', ''r2''],
           account_credentials = [(''a'', \<lparr>access_key = Some ''k'', secret_key = Some ''s''\<rparr>)],
           describe_instances = (\<lambda>region ak sk. if region = ''r1'' then Inr [1] else Inr [])\<rparr>
          True False 3600
          (snd (discover_ec2_used_regions_from_provider
             \<lparr>region_candidates = [''r1'', ''r2''],
              account_credentials = [(''a'', \<lparr>access_key = Some ''k'', secret_key = Some ''s''\<rparr>)],
              describe_instances = (\<lambda>region ak sk. if region = ''r1'' then Inr [1] else Inr [])\<rparr>
             True False 0
             \<lparr>region_cache_ttl = 86400, region_files = Map.empty, probes = []\<rparr>)))))
     = [(''a'', ''r1''), (''a'', ''r2'')]
   \<and> filter (\<lambda>p. fst p = ''a'')
       (probes (snd (discover_ec2_used_regions_from_provider
          \<lparr>region_candidates = [''r1'', ''r2''],
           account_credentials = [(''a'', \<lparr>access_key = Some ''k'', secret_key = Some ''s''\<rparr>)],
           describe_instances = (\<lambda>region ak sk. if region = ''r1'' then Inr [1] else Inr [])\<rparr>
          True True 3600
          (snd (discover_ec2_used_regions_from_provider
             \<lparr>region_candidates = [''r1'', ''r2''],
              account_credentials = [(''a'', \<lparr>access_key = Some ''k'', secret_key = Some ''s''\<rparr>)],
              describe_instances = (\<lambda>region ak sk. if region = ''r1'' then Inr [1] else Inr [])\<rparr>
             True False 0
             \<lparr>region_cache_ttl = 86400, region_files = Map.empty, probes = []\<rparr>)))))
     = [(''a'', ''r1''), (''a'', ''r2''), (''a'', ''r1''), (''a'', ''r2'')]"
proof -
  let ?cr = "\<lparr>access_key = Some ''k'', secret_key = Some ''s''\<rparr>"
  let ?env = "\<lparr>region_candidates = [''r1'', ''r2''],
           account_credentials = [(''a'', ?cr)],
           describe_instances = (\<lambda>region ak sk. if region = ''r1'' then Inr [1::nat] else Inr [])\<rparr>"
  let ?d0 = "\<lparr>region_cache_ttl = 86400, region_files = Map.empty, probes = []\<rparr>"
  let ?first = "discover_ec2_used_regions_from_provider ?env True False 0 ?d0"
  have h1: "region_candidates ?env \<noteq> []" by simp
  have h2: "(''a'', ?cr) \<in> set (account_credentials ?env)" by simp
  have h3: "distinct (map fst (account_credentials ?env))" by simp
  have h4: "\<not> key_missing (access_key ?cr)" by (simp add: key_missing_def)
  have h5: "\<not> key_missing (secret_key ?cr)" by (simp add: key_missing_def)
  have h6: "False \<or> load_account_cache 0 ?d0 ''a'' = None" by (simp add: load_account_cache_def)
  have h7: "(3600::real) - 0 \<le> of_int (region_cache_ttl ?d0)" by simp
  have pf: "filter (\<lambda>p. fst p = ''a'') (probes (snd ?first)) = [(''a'', ''r1''), (''a'', ''r2'')]"
    by (simp add: discover_ec2_used_regions_from_provider_def discover_account_def key_missing_def
          load_account_cache_def save_account_cache_def Let_def)
  have u: "filter (\<lambda>region. probe_ec2_usage ?env region (the (access_key ?cr)) (the (secret_key ?cr)))
             (region_candidates ?env) = [''r1'']"
    by (simp add: probe_ec2_usage_def)
  from active_region_cache [OF h1 h2 h3 h4 h5 h6 h1 h2 h3 h4 h5 h7 refl refl refl, of True] pf u
  show ?thesis by simp
qed

section \<open>The service with built-in limits\<close>

lemma cloudfront_limit_positive:
  "map_of cloudfront_default_limits code = Some l \<Longrightarrow> l > 0"
  by (auto simp: cloudfront_default_limits_def split: if_splits)

lemma collect_cloudfront_member:
  assumes "r \<in> set (collect_cloudfront account_id service service_region quotas)"
  shows "res_status r = SUCCESS \<and> res_service r = service \<and> res_account_id r = account_id
       \<and> res_region r = service_region
       \<and> map_of cloudfront_default_limits (res_quota_code r)
           = Some (limit_value_of (res_quota_info r))"
  using assms by (auto simp: collect_cloudfront_def limit_value_of_def split: option.splits)

lemma collect_cloudfront_has:
  assumes "quota \<in> set quotas"
    and "map_of cloudfront_default_limits (item_quota_code quota) = Some l"
  shows "\<lparr> res_service = service, res_quota_code = item_quota_code quota,
           res_quota_name = item_quota_name quota, res_status = SUCCESS,
           res_account_id = account_id, res_region = service_region, res_reason = None,
           res_quota_info = Some
             \<lparr> info_quota_code = item_quota_code quota,
               info_quota_name = item_quota_name quota,
               info_value = l, info_unit = None, info_adjustable = None,
               info_global_quota = None, info_account_id = Some account_id,
               info_region = Some service_region \<rparr>,
           res_error = None \<rparr>
         \<in> set (collect_cloudfront account_id service service_region quotas)"
  using assms by (force simp: collect_cloudfront_def)

lemma collect_cloudfront_codes:
  "map res_quota_code (collect_cloudfront account_id service service_region quotas) =
     filter (\<lambda>code. map_of cloudfront_default_limits code \<noteq> None) (map item_quota_code quotas)"
  by (induction quotas) (auto simp: collect_cloudfront_def split: option.splits)

lemma add_result_limit_at:
  "quota_limit (add_result r c) lbls =
     (if is_success r \<and> lbls = result_labels r
      then Some (Num (limit_value_of (res_quota_info r)))
      else quota_limit c lbls)"
  by (simp add: add_result_def result_labels_def is_success_def is_skipped_def Let_def
        split: option.splits)

lemma add_result_results: "results (add_result r c) = results c @ [r]"
  by (simp add: add_result_def Let_def split: option.splits)

lemma fold_add_result_results: "results (fold add_result rs c) = results c @ rs"
  by (induction rs arbitrary: c) (simp_all add: add_result_results)

lemma fold_add_result_limit:
  assumes "\<And>r. r \<in> set rs \<Longrightarrow> is_success r \<Longrightarrow> lbls = result_labels r
             \<Longrightarrow> limit_value_of (res_quota_info r) = l"
  shows "quota_limit (fold add_result rs c) lbls =
           (if \<exists>r \<in> set rs. is_success r \<and> lbls = result_labels r
            then Some (Num l) else quota_limit c lbls)"
  using assms
proof (induction rs arbitrary: c)
  case Nil
  show ?case by simp
next
  case (Cons x xs)
  have ih: "quota_limit (fold add_result xs (add_result x c)) lbls =
           (if \<exists>r \<in> set xs. is_success r \<and> lbls = result_labels r
            then Some (Num l) else quota_limit (add_result x c) lbls)"
    by (rule Cons.IH) (rule Cons.prems, simp_all)
  show ?case
  proof (cases "is_success x \<and> lbls = result_labels x")
    case True
    then have "limit_value_of (res_quota_info x) = l" using Cons.prems [of x] by simp
    with True ih show ?thesis by (simp add: add_result_limit_at)
  next
    case False
    with ih show ?thesis by (auto simp: add_result_limit_at)
  qed
qed

lemma usage_for_success_at:
  "quota_usage (usage_for_success a reg s u r c) lbls =
     (if usage_match a reg s u lbls r then Some (Num (the (map_of u (res_quota_code r))))
      else quota_usage c lbls)"
  "quota_usage_percent (usage_for_success a reg s u r c) lbls =
     (if usage_match a reg s u lbls r
      then Some (if limit_value_of (res_quota_info r) > 0
                 then Num (the (map_of u (res_quota_code r)) / limit_value_of (res_quota_info r) * 100)
                 else NaN)
      else quota_usage_percent c lbls)"
  by (auto simp: usage_for_success_def usage_match_def Let_def split: option.splits)

lemma fold_usage_for_success_at:
  assumes "\<And>r. r \<in> set rs \<Longrightarrow> usage_match a reg s u lbls r
             \<Longrightarrow> limit_value_of (res_quota_info r) = l
                 \<and> map_of u (res_quota_code r) = Some uv"
    and "l > 0"
  shows "quota_usage (fold (usage_for_success a reg s u) rs c) lbls =
           (if \<exists>r \<in> set rs. usage_match a reg s u lbls r
            then Some (Num uv) else quota_usage c lbls)
       \<and> quota_usage_percent (fold (usage_for_success a reg s u) rs c) lbls =
           (if \<exists>r \<in> set rs. usage_match a reg s u lbls r
            then Some (Num (uv / l * 100)) else quota_usage_percent c lbls)"
  using assms(1)
proof (induction rs arbitrary: c)
  case Nil
  show ?case by simp
next
  case (Cons x xs)
  let ?c = "usage_for_success a reg s u x c"
  have ih: "quota_usage (fold (usage_for_success a reg s u) xs ?c) lbls =
           (if \<exists>r \<in> set xs. usage_match a reg s u lbls r
            then Some (Num uv) else quota_usage ?c lbls)
       \<and> quota_usage_percent (fold (usage_for_success a reg s u) xs ?c) lbls =
           (if \<exists>r \<in> set xs. usage_match a reg s u lbls r
            then Some (Num (uv / l * 100)) else quota_usage_percent ?c lbls)"
    by (rule Cons.IH) (rule Cons.prems, simp_all)
  show ?case
  proof (cases "usage_match a reg s u lbls x")
    case True
    then have "limit_value_of (res_quota_info x) = l \<and> map_of u (res_quota_code x) = Some uv"
      using Cons.prems [of x] by simp
    with True ih assms(2) show ?thesis by (simp add: usage_for_success_at)
  next
    case False
    with ih show ?thesis by (auto simp: usage_for_success_at)
  qed
qed

lemma fold_usage_for_skipped_none:
  assumes "\<And>r. r \<in> set rs \<Longrightarrow> \<not> is_skipped r"
  shows "fold (usage_for_skipped a reg s u) rs c = c"
  using assms
proof (induction rs arbitrary: c)
  case Nil
  show ?case by simp
next
  case (Cons x xs)
  have "\<not> is_skipped x" using Cons.prems [of x] by simp
  then have "usage_for_skipped a reg s u x c = c" by (simp add: usage_for_skipped_def)
  moreover have "fold (usage_for_skipped a reg s u) xs c = c"
    by (rule Cons.IH) (rule Cons.prems, simp)
  ultimately show ?case by simp
qed

lemma cloudfront_usage_attached:
  assumes nos: "\<And>r. r \<in> set (results c) \<Longrightarrow> \<not> is_skipped r"
    and q: "quota \<in> set quotas"
    and tl: "map_of cloudfront_default_limits (item_quota_code quota) = Some l"
    and uv: "map_of usage (item_quota_code quota) = Some uv"
    and rs: "rs = collect_cloudfront a s reg quotas"
    and c': "c' = set_usage_data a reg s usage (collect_all rs c)"
    and lb: "lbls = (''aws'', a, reg, s, item_quota_name quota, item_quota_code quota)"
  shows "quota_limit c' lbls = Some (Num l)
       \<and> quota_usage c' lbls = Some (Num uv)
       \<and> quota_usage_percent c' lbls = Some (Num (uv / l * 100))"
proof -
  let ?r0 = "\<lparr> res_service = s, res_quota_code = item_quota_code quota,
           res_quota_name = item_quota_name quota, res_status = SUCCESS,
           res_account_id = a, res_region = reg, res_reason = None,
           res_quota_info = Some
             \<lparr> info_quota_code = item_quota_code quota,
               info_quota_name = item_quota_name quota,
               info_value = l, info_unit = None, info_adjustable = None,
               info_global_quota = None, info_account_id = Some a,
               info_region = Some reg \<rparr>,
           res_error = None \<rparr>"
  have r0: "?r0 \<in> set rs" unfolding rs using q tl by (rule collect_cloudfront_has)
  have r0s: "is_success ?r0" by (simp add: is_success_def)
  have r0l: "lbls = result_labels ?r0" by (simp add: lb result_labels_def)
  have r0m: "usage_match a reg s usage lbls ?r0"
    by (simp add: usage_match_def is_success_def lb uv)
  have lpos: "l > 0" using tl by (rule cloudfront_limit_positive)
  have shape: "limit_value_of (res_quota_info r) = l \<and> map_of usage (res_quota_code r) = Some uv
               \<and> is_success r"
    if m: "r \<in> set rs" and c: "res_quota_code r = item_quota_code quota" for r
  proof -
    from collect_cloudfront_member [OF m [unfolded rs]]
    have "res_status r = SUCCESS"
      and "map_of cloudfront_default_limits (res_quota_code r)
             = Some (limit_value_of (res_quota_info r))"
      by simp_all
    with c tl uv show ?thesis by (simp add: is_success_def)
  qed
  have noskip: "\<not> is_skipped r" if "r \<in> set rs" for r
  proof -
    from collect_cloudfront_member [OF that [unfolded rs]] have "res_status r = SUCCESS"
      by auto
    then show ?thesis by (simp add: is_skipped_def)
  qed
  let ?c0 = "collect_all rs c"
  have res0: "results ?c0 = results c @ rs"
    by (simp add: collect_all_def fold_add_result_results)
  have lim: "quota_limit ?c0 lbls = Some (Num l)"
  proof -
    have "quota_limit (fold add_result rs c) lbls =
           (if \<exists>r \<in> set rs. is_success r \<and> lbls = result_labels r
            then Some (Num l) else quota_limit c lbls)"
    proof (rule fold_add_result_limit)
      fix r assume "r \<in> set rs" "is_success r" "lbls = result_labels r"
      then show "limit_value_of (res_quota_info r) = l"
        using shape [of r] by (simp add: lb result_labels_def)
    qed
    with r0 r0s r0l show ?thesis unfolding collect_all_def by auto
  qed
  let ?c1 = "?c0\<lparr>usage_data := (usage_data ?c0)((a, reg, s) \<mapsto> usage)\<rparr>"
  let ?f = "usage_for_success a reg s usage"
  let ?c2 = "fold ?f (results ?c1) ?c1"
  have c2: "?c2 = fold ?f rs (fold ?f (results c) ?c1)"
    by (simp add: res0)
  have at: "quota_usage ?c2 lbls = Some (Num uv)
          \<and> quota_usage_percent ?c2 lbls = Some (Num (uv / l * 100))"
  proof -
    have "quota_usage (fold ?f rs (fold ?f (results c) ?c1)) lbls =
           (if \<exists>r \<in> set rs. usage_match a reg s usage lbls r
            then Some (Num uv) else quota_usage (fold ?f (results c) ?c1) lbls)
       \<and> quota_usage_percent (fold ?f rs (fold ?f (results c) ?c1)) lbls =
           (if \<exists>r \<in> set rs. usage_match a reg s usage lbls r
            then Some (Num (uv / l * 100)) else quota_usage_percent (fold ?f (results c) ?c1) lbls)"
    proof (rule fold_usage_for_success_at)
      fix r assume "r \<in> set rs" "usage_match a reg s usage lbls r"
      then show "limit_value_of (res_quota_info r) = l \<and> map_of usage (res_quota_code r) = Some uv"
        using shape [of r] by (simp add: lb usage_match_def)
    next
      show "l > 0" by (rule lpos)
    qed
    with r0 r0m show ?thesis unfolding c2 by auto
  qed
  have res2: "results ?c2 = results c @ rs"
    by (simp add: fold_usage_for_success_keeps res0)
  have "fold (usage_for_skipped a reg s usage) (results ?c2) ?c2 = ?c2"
  proof (rule fold_usage_for_skipped_none)
    fix r assume "r \<in> set (results ?c2)"
    then have "r \<in> set (results c) \<or> r \<in> set rs" unfolding res2 by simp
    then show "\<not> is_skipped r" using nos noskip by blast
  qed
  then have c'2: "c' = ?c2" unfolding c' set_usage_data_def Let_def by simp
  have "quota_limit ?c2 lbls = quota_limit ?c0 lbls"
    by (simp add: fold_usage_for_success_keeps)
  with lim at show ?thesis unfolding c'2 by simp
qed

section \<open>Limits of the service with the built-in table\<close>

text \<open>
  C2, as stated, fails: for an account in region \<open>eu-west-1\<close> with one CloudFront quota
  of the table configured, the limit phase returns a success result carrying the table's
  limit 200, not a skipped result.
\<close>

theorem cloudfront_recorded_as_success_counterexample:
  "fst (collect_account_region_quotas
     \<lparr>get_quota_api = (\<lambda>n r s q. Inl (OtherException ''unused'')),
      list_quotas_api = (\<lambda>r. Inr []),
      collect_usage_api = (\<lambda>s a r. Inr []),
      get_regions_api = (\<lambda>a. Inr []),
      force_refresh_quota_limits = False\<rparr>
     [(''cloudfront'', Quotas [\<lparr>item_quota_code = ''L-24B04930'', item_quota_name = ''n'',
        item_description = '''', item_priority = ''high'', item_cache_ttl_limit = 86400,
        item_cache_ttl_usage = 3600\<rparr>])]
     [] True False ''a'' ''eu-west-1''
     \<lparr>clock = 0, sleeps = [], api_calls = [], limit_cache = None\<rparr>)
   = [Result \<lparr>res_service = ''cloudfront'', res_quota_code = ''L-24B04930'', res_quota_name = ''n'',
        res_status = SUCCESS, res_account_id = ''a'', res_region = ''us-east-1'',
        res_reason = None,
        res_quota_info = Some \<lparr>info_quota_code = ''L-24B04930'', info_quota_name = ''n'',
          info_value = 200, info_unit = None, info_adjustable = None, info_global_quota = None,
          info_account_id = Some ''a'', info_region = Some ''us-east-1''\<rparr>,
        res_error = None\<rparr>]"
  by (simp add: collect_account_region_quotas_def collect_service_limits_def
        collect_cloudfront_def cloudfront_default_limits_def global_services_def Let_def)

text \<open>
  C2 (amended). For the service with the built-in table the limit phase records a success
  result, with the table's value as limit, for each configured quota whose code is in the
  table, and nothing for the other quotas; it records no skipped result. When no skipped
  result is collected, the usage collected for the service is attached to these success
  results: the quota's label set gets the table's limit, the usage value, and the
  percent \<open>usage / limit * 100\<close>.
\<close>

theorem cloudfront_limits_from_table:
  "(\<forall>r \<in> set (collect_cloudfront account_id service service_region quotas).
       res_status r = SUCCESS \<and> res_service r = service \<and> res_account_id r = account_id \<and>
       res_region r = service_region \<and>
       map_of cloudfront_default_limits (res_quota_code r)
         = Some (limit_value_of (res_quota_info r)))
   \<and> map res_quota_code (collect_cloudfront account_id service service_region quotas) =
       filter (\<lambda>code. map_of cloudfront_default_limits code \<noteq> None) (map item_quota_code quotas)
   \<and> ((\<forall>r \<in> set (results c). \<not> is_skipped r) \<and> quota \<in> set quotas \<and>
        map_of cloudfront_default_limits (item_quota_code quota) = Some l \<and>
        map_of usage (item_quota_code quota) = Some uv
        \<longrightarrow>
          quota_limit
            (set_usage_data account_id service_region service usage
               (collect_all (collect_cloudfront account_id service service_region quotas) c))
            (''aws'', account_id, service_region, service, item_quota_name quota, item_quota_code quota)
            = Some (Num l)
        \<and> quota_usage
            (set_usage_data account_id service_region service usage
               (collect_all (collect_cloudfront account_id service service_region quotas) c))
            (''aws'', account_id, service_region, service, item_quota_name quota, item_quota_code quota)
            = Some (Num uv)
        \<and> quota_usage_percent
            (set_usage_data account_id service_region service usage
               (collect_all (collect_cloudfront account_id service service_region quotas) c))
            (''aws'', account_id, service_region, service, item_quota_name quota, item_quota_code quota)
            = Some (Num (uv / l * 100)))"
proof -
  have a: "\<forall>r \<in> set (collect_cloudfront account_id service service_region quotas).
       res_status r = SUCCESS \<and> res_service r = service \<and> res_account_id r = account_id \<and>
       res_region r = service_region \<and>
       map_of cloudfront_default_limits (res_quota_code r)
         = Some (limit_value_of (res_quota_info r))"
    using collect_cloudfront_member by blast
  have b: "map res_quota_code (collect_cloudfront account_id service service_region quotas) =
       filter (\<lambda>code. map_of cloudfront_default_limits code \<noteq> None) (map item_quota_code quotas)"
    by (rule collect_cloudfront_codes)
  have c: "quota_limit
            (set_usage_data account_id service_region service usage
               (collect_all (collect_cloudfront account_id service service_region quotas) c))
            (''aws'', account_id, service_region, service, item_quota_name quota, item_quota_code quota)
            = Some (Num l)
        \<and> quota_usage
            (set_usage_data account_id service_region service usage
               (collect_all (collect_cloudfront account_id service service_region quotas) c))
            (''aws'', account_id, service_region, service, item_quota_name quota, item_quota_code quota)
            = Some (Num uv)
        \<and> quota_usage_percent
            (set_usage_data account_id service_region service usage
               (collect_all (collect_cloudfront account_id service service_region quotas) c))
            (''aws'', account_id, service_region, service, item_quota_name quota, item_quota_code quota)
            = Some (Num (uv / l * 100))"
    if "\<forall>r \<in> set (results c). \<not> is_skipped r" and "quota \<in> set quotas"
      and "map_of cloudfront_default_limits (item_quota_code quota) = Some l"
      and "map_of usage (item_quota_code quota) = Some uv"
  proof (rule cloudfront_usage_attached [OF _ that(2) that(3) that(4) refl refl refl])
    fix r assume "r \<in> set (results c)"
    with that(1) show "\<not> is_skipped r" by (rule bspec)
  qed
  from a b c show ?thesis by blast
qed

theorem cloudfront_limits_from_table_witness:
  "map res_status (collect_cloudfront ''a'' ''cloudfront'' ''us-east-1''
       [\<lparr>item_quota_code = ''L-24B04930'', item_quota_name = ''n'', item_description = '''',
        item_priority = ''high'', item_cache_ttl_limit = 86400, item_cache_ttl_usage = 3600\<rparr>]) = [SUCCESS]
   \<and> quota_usage_percent
        (set_usage_data ''a'' ''us-east-1'' ''cloudfront'' [(''L-24B04930'', 50)]
           (collect_all (collect_cloudfront ''a'' ''cloudfront'' ''us-east-1''
              [\<lparr>item_quota_code = ''L-24B04930'', item_quota_name = ''n'', item_description = '''',
        item_priority = ''high'', item_cache_ttl_limit = 86400, item_cache_ttl_usage = 3600\<rparr>])
              QuotaCollector_init))
        (''aws'', ''a'', ''us-east-1'', ''cloudfront'', ''n'', ''L-24B04930'') = Some (Num 25)"
proof -
  let ?q = "\<lparr>item_quota_code = ''L-24B04930'', item_quota_name = ''n'', item_description = '''',
        item_priority = ''high'', item_cache_ttl_limit = 86400, item_cache_ttl_usage = 3600\<rparr>"
  have h1: "\<forall>r \<in> set (results QuotaCollector_init). \<not> is_skipped r"
    by (simp add: QuotaCollector_init_def)
  have h2: "?q \<in> set [?q]" by simp
  have h3: "map_of cloudfront_default_limits (item_quota_code ?q) = Some 200"
    by (simp add: cloudfront_default_limits_def)
  have h4: "map_of [(''L-24B04930'', 50::real)] (item_quota_code ?q) = Some 50" by simp
  have st: "map res_status (collect_cloudfront ''a'' ''cloudfront'' ''us-east-1'' [?q]) = [SUCCESS]"
    by (simp add: collect_cloudfront_def cloudfront_default_limits_def)
  from cloudfront_limits_from_table
         [of "''a''" "''cloudfront''" "''us-east-1''" "[?q]" QuotaCollector_init ?q 200
             "[(''L-24B04930'', 50)]" 50]
       h1 h2 h3 h4 st
  show ?thesis by simp
qed

section \<open>Region fallback\<close>

text \<open>
  C3. For an account whose region list is empty and a configuration with the regional
  service \<open>ec2\<close>, collection falls back to \<open>us-east-1\<close> and there fetches and returns a
  result for the regional service as well.
\<close>

theorem region_fallback_collects_regional_service:
  "fst (collect_account_quotas
     \<lparr>get_quota_api = (\<lambda>n r s q. Inr \<lparr>aq_QuotaCode = Some q, aq_QuotaName = None,
         aq_Value = Some 5, aq_Unit = None, aq_Adjustable = None, aq_GlobalQuota = None\<rparr>),
      list_quotas_api = (\<lambda>r. Inr []),
      collect_usage_api = (\<lambda>s a r. Inr []),
      get_regions_api = (\<lambda>a. Inr []),
      force_refresh_quota_limits = False\<rparr>
     [(''ec2'', Quotas [\<lparr>item_quota_code = ''L-1216C47A'', item_quota_name = ''n'',
        item_description = '''', item_priority = ''high'', item_cache_ttl_limit = 86400,
        item_cache_ttl_usage = 3600\<rparr>])]
     [] True False ''a''
     \<lparr>clock = 0, sleeps = [], api_calls = [], limit_cache = None\<rparr>)
   = [Result \<lparr>res_service = ''ec2'', res_quota_code = ''L-1216C47A'', res_quota_name = ''n'',
        res_status = SUCCESS, res_account_id = ''a'', res_region = ''us-east-1'',
        res_reason = None,
        res_quota_info = Some \<lparr>info_quota_code = ''L-1216C47A'', info_quota_name = [],
          info_value = 5, info_unit = Some [], info_adjustable = Some False,
          info_global_quota = Some False,
          info_account_id = Some ''a'', info_region = Some ''us-east-1''\<rparr>,
        res_error = None\<rparr>]"
  by (simp add: collect_account_quotas_def collect_account_region_quotas_def
        collect_service_limits_def collect_declared_quota_def global_services_def
        retry_loop.simps [of _ _ _ _ 0] max_retries_def get_service_quota_def quota_dict_def sleep_def
        success_result_def Let_def)

section \<open>Scheduler loops\<close>

lemma refresh_loop_survives:
  "list_all (\<lambda>x. running_at_test x \<and>
               (time_sleep_error interval = None \<longrightarrow>
                  running_after_sleep x \<and> (\<forall>e. outcome x \<noteq> RaisesBase e))) xs \<Longrightarrow>
   refresh_loop cb interval xs = (concat (map (pass_events cb interval) xs), StillLooping)"
proof (induction xs)
  case Nil
  show ?case by simp
next
  case (Cons x xs)
  from Cons.prems have r: "running_at_test x"
    and rest: "list_all (\<lambda>x. running_at_test x \<and>
               (time_sleep_error interval = None \<longrightarrow>
                  running_after_sleep x \<and> (\<forall>e. outcome x \<noteq> RaisesBase e))) xs"
    and ok: "time_sleep_error interval = None \<Longrightarrow>
               running_after_sleep x \<and> (\<forall>e. outcome x \<noteq> RaisesBase e)"
    by simp_all
  note ih = Cons.IH [OF rest]
  show ?case
  proof (cases "time_sleep_error interval")
    case (Some err)
    then show ?thesis by (simp add: ih r pass_events_def)
  next
    case None
    from ok [OF None] have a: "running_after_sleep x" and b: "\<And>e. outcome x \<noteq> RaisesBase e"
      by simp_all
    show ?thesis
    proof (cases "outcome x")
      case Returns
      then show ?thesis by (simp add: ih r a None pass_events_def)
    next
      case (Raises e)
      then show ?thesis by (simp add: ih r a None pass_events_def)
    next
      case (RaisesBase e)
      with b [of e] show ?thesis by blast
    qed
  qed
qed

lemma refresh_loop_append:
  assumes "refresh_loop cb interval xs = (evs, StillLooping)"
  shows "refresh_loop cb interval (xs @ ys) =
           (evs @ fst (refresh_loop cb interval ys), snd (refresh_loop cb interval ys))"
  using assms
proof (induction xs arbitrary: evs)
  case Nil
  then show ?case by simp
next
  case (Cons x xs)
  obtain evs' st' where rec: "refresh_loop cb interval xs = (evs', st')"
    by (cases "refresh_loop cb interval xs")
  show ?case
  proof (cases "running_at_test x")
    case False
    with Cons.prems show ?thesis by simp
  next
    case True
    show ?thesis
    proof (cases "time_sleep_error interval")
      case (Some err)
      with True Cons.prems rec have st: "st' = StillLooping" and ev: "evs = LoggedError err # evs'"
        by simp_all
      from Cons.IH [OF rec [unfolded st]] True Some ev show ?thesis
        by (simp add: case_prod_unfold)
    next
      case None
      show ?thesis
      proof (cases "running_after_sleep x")
        case False
        with True None Cons.prems show ?thesis by simp
      next
        case ras: True
        show ?thesis
        proof (cases "outcome x")
          case Returns
          with True None ras Cons.prems rec
          have st: "st' = StillLooping" and ev: "evs = Slept interval # Called cb # evs'"
            by simp_all
          from Cons.IH [OF rec [unfolded st]] True None ras Returns ev show ?thesis
            by (simp add: case_prod_unfold)
        next
          case (Raises e)
          with True None ras Cons.prems rec
          have st: "st' = StillLooping"
            and ev: "evs = Slept interval # Called cb # LoggedError e # evs'"
            by simp_all
          from Cons.IH [OF rec [unfolded st]] True None ras Raises ev show ?thesis
            by (simp add: case_prod_unfold)
        next
          case (RaisesBase e)
          with True None ras Cons.prems show ?thesis by simp
        qed
      qed
    qed
  qed
qed

text \<open>
  C6, as stated, fails in two ways. A callback that raises an exception outside the class
  \<open>Exception\<close> (here \<open>SystemExit\<close>) is not caught by \<open>except Exception\<close>: the loop ends
  with it at the first pass and the second pass never runs. And with a negative interval
  \<open>time.sleep\<close> raises inside the \<open>try\<close> at every pass: the loop logs the error and goes
  round again without sleeping and without ever calling the callback.
\<close>

theorem refresh_loop_ended_counterexample:
  "limit_refresh_loop
     \<lparr>limit_interval = 86400, usage_interval = 3600, running = True,
      limit_thread = Some True, usage_thread = Some True\<rparr>
     [\<lparr>running_at_test = True, running_after_sleep = True, outcome = RaisesBase ''SystemExit''\<rparr>,
      \<lparr>running_at_test = True, running_after_sleep = True, outcome = Returns\<rparr>]
   = ([Slept 86400, Called ''collect_limit_func''], Died ''SystemExit'')
   \<and> usage_refresh_loop
     \<lparr>limit_interval = 86400, usage_interval = - 1, running = True,
      limit_thread = Some True, usage_thread = Some True\<rparr>
     [\<lparr>running_at_test = True, running_after_sleep = True, outcome = Returns\<rparr>,
      \<lparr>running_at_test = True, running_after_sleep = True, outcome = Returns\<rparr>]
   = ([LoggedError ''sleep length must be non-negative'',
       LoggedError ''sleep length must be non-negative''], StillLooping)"
  by (simp add: limit_refresh_loop_def usage_refresh_loop_def time_sleep_error_def)

text \<open>
  C6 (amended). For either loop, with its own callback and interval, over any number of
  passes at which the running flag is read as true (and, when \<open>time.sleep\<close> accepts the
  interval, read as true again after the sleep, the callback raising nothing outside the
  class \<open>Exception\<close>): when \<open>time.sleep\<close> accepts the interval, each pass sleeps the
  interval, then calls the callback, and logs the error if the callback raised an
  \<open>Exception\<close>; when \<open>time.sleep\<close> rejects the interval, each pass only logs that error
  and the callback is not called. In both cases the loop is still looping after these
  passes, however many of them failed. A following pass whose callback raises an exception
  outside the class \<open>Exception\<close> ends the loop with that exception, right after the sleep
  and the call, and no later pass runs.
\<close>

theorem refresh_loops_survive_failed_cycles:
  assumes which:
      "(loop, cb, interval) =
         (limit_refresh_loop s, ''collect_limit_func'', limit_interval s) \<or>
       (loop, cb, interval) =
         (usage_refresh_loop s, ''collect_usage_func'', usage_interval s)"
    and run:
      "\<forall>x \<in> set xs. running_at_test x \<and>
          (time_sleep_error interval = None \<longrightarrow>
             running_after_sleep x \<and> (\<forall>e. outcome x \<noteq> RaisesBase e))"
  shows "loop xs =
           (concat (map (\<lambda>x. case time_sleep_error interval of
                         Some err \<Rightarrow> [LoggedError err]
                       | None \<Rightarrow>
                           [Slept interval, Called cb] @
                           (case outcome x of
                              Returns \<Rightarrow> [] | Raises e \<Rightarrow> [LoggedError e] | RaisesBase e \<Rightarrow> [])) xs),
            StillLooping)
       \<and> (time_sleep_error interval = None \<and> running_at_test z \<and> running_after_sleep z \<and>
          outcome z = RaisesBase b \<longrightarrow>
            loop (xs @ z # zs) =
              (concat (map (\<lambda>x. case time_sleep_error interval of
                         Some err \<Rightarrow> [LoggedError err]
                       | None \<Rightarrow>
                           [Slept interval, Called cb] @
                           (case outcome x of
                              Returns \<Rightarrow> [] | Raises e \<Rightarrow> [LoggedError e] | RaisesBase e \<Rightarrow> [])) xs)
               @ [Slept interval, Called cb],
               Died b))"
proof -
  from which have lp: "loop = refresh_loop cb interval"
    by (auto simp: limit_refresh_loop_def usage_refresh_loop_def fun_eq_iff)
  from run have a: "list_all (\<lambda>x. running_at_test x \<and>
               (time_sleep_error interval = None \<longrightarrow>
                  running_after_sleep x \<and> (\<forall>e. outcome x \<noteq> RaisesBase e))) xs"
    unfolding list_all_iff .
  have p: "pass_events cb interval = (\<lambda>x. case time_sleep_error interval of
                         Some err \<Rightarrow> [LoggedError err]
                       | None \<Rightarrow>
                           [Slept interval, Called cb] @
                           (case outcome x of
                              Returns \<Rightarrow> [] | Raises e \<Rightarrow> [LoggedError e] | RaisesBase e \<Rightarrow> []))"
    by (simp add: pass_events_def fun_eq_iff)
  have one: "refresh_loop cb interval xs =
               (concat (map (pass_events cb interval) xs), StillLooping)"
    using a by (rule refresh_loop_survives)
  have two: "refresh_loop cb interval (xs @ z # zs) =
               (concat (map (pass_events cb interval) xs) @ [Slept interval, Called cb], Died b)"
    if "time_sleep_error interval = None" "running_at_test z" "running_after_sleep z"
       "outcome z = RaisesBase b"
    using refresh_loop_append [OF one, of "z # zs"] that by simp
  from one two show ?thesis unfolding lp p by blast
qed

theorem refresh_loops_survive_failed_cycles_witness:
  "limit_refresh_loop
     \<lparr>limit_interval = 86400, usage_interval = 3600, running = True,
      limit_thread = Some True, usage_thread = Some True\<rparr>
     [\<lparr>running_at_test = True, running_after_sleep = True, outcome = Raises ''boom''\<rparr>,
      \<lparr>running_at_test = True, running_after_sleep = True, outcome = Returns\<rparr>]
   = ([Slept 86400, Called ''collect_limit_func'', LoggedError ''boom'',
       Slept 86400, Called ''collect_limit_func''], StillLooping)
   \<and> limit_refresh_loop
     \<lparr>limit_interval = 86400, usage_interval = 3600, running = True,
      limit_thread = Some True, usage_thread = Some True\<rparr>
     ([\<lparr>running_at_test = True, running_after_sleep = True, outcome = Raises ''boom''\<rparr>,
       \<lparr>running_at_test = True, running_after_sleep = True, outcome = Returns\<rparr>] @
      \<lparr>running_at_test = True, running_after_sleep = True, outcome = RaisesBase ''SystemExit''\<rparr> #
      [\<lparr>running_at_test = True, running_after_sleep = True, outcome = Returns\<rparr>])
   = ([Slept 86400, Called ''collect_limit_func'', LoggedError ''boom'',
       Slept 86400, Called ''collect_limit_func''] @
      [Slept 86400, Called ''collect_limit_func''], Died ''SystemExit'')
   \<and> usage_refresh_loop
     \<lparr>limit_interval = 86400, usage_interval = 3600, running = True,
      limit_thread = Some True, usage_thread = Some True\<rparr>
     [\<lparr>running_at_test = True, running_after_sleep = True, outcome = Raises ''boom''\<rparr>,
      \<lparr>running_at_test = True, running_after_sleep = True, outcome = Returns\<rparr>]
   = ([Slept 3600, Called ''collect_usage_func'', LoggedError ''boom'',
       Slept 3600, Called ''collect_usage_func''], StillLooping)
   \<and> usage_refresh_loop
     \<lparr>limit_interval = 86400, usage_interval = - 1, running = True,
      limit_thread = Some True, usage_thread = Some True\<rparr>
     [\<lparr>running_at_test = True, running_after_sleep = True, outcome = Returns\<rparr>,
      \<lparr>running_at_test = True, running_after_sleep = True, outcome = Returns\<rparr>]
   = ([LoggedError ''sleep length must be non-negative'',
       LoggedError ''sleep length must be non-negative''], StillLooping)"
proof -
  let ?sn = "\<lparr>limit_interval = 86400, usage_interval = - 1, running = True,
      limit_thread = Some True, usage_thread = Some True\<rparr>"
  let ?ys = "[\<lparr>running_at_test = True, running_after_sleep = True, outcome = Returns\<rparr>,
      \<lparr>running_at_test = True, running_after_sleep = True, outcome = Returns\<rparr>]"
  have t3: "time_sleep_error (- 1) = Some ''sleep length must be non-negative''"
    by (simp add: time_sleep_error_def)
  have w3: "(usage_refresh_loop ?sn, ''collect_usage_func'', - 1) =
         (limit_refresh_loop ?sn, ''collect_limit_func'', limit_interval ?sn) \<or>
       (usage_refresh_loop ?sn, ''collect_usage_func'', - 1) =
         (usage_refresh_loop ?sn, ''collect_usage_func'', usage_interval ?sn)"
    by simp
  have r3: "\<forall>x \<in> set ?ys. running_at_test x \<and>
          (time_sleep_error (- 1) = None \<longrightarrow>
             running_after_sleep x \<and> (\<forall>e. outcome x \<noteq> RaisesBase e))"
    by simp
  have p3: "usage_refresh_loop ?sn ?ys
   = ([LoggedError ''sleep length must be non-negative'',
       LoggedError ''sleep length must be non-negative''], StillLooping)"
    using refresh_loops_survive_failed_cycles [OF w3 r3, of "\<lparr>running_at_test = True, running_after_sleep = True, outcome = Returns\<rparr>"
         "''SystemExit''" "[]"] t3
    by simp
  let ?s = "\<lparr>limit_interval = 86400, usage_interval = 3600, running = True,
      limit_thread = Some True, usage_thread = Some True\<rparr>"
  let ?xs = "[\<lparr>running_at_test = True, running_after_sleep = True, outcome = Raises ''boom''\<rparr>,
      \<lparr>running_at_test = True, running_after_sleep = True, outcome = Returns\<rparr>]"
  let ?z = "\<lparr>running_at_test = True, running_after_sleep = True, outcome = RaisesBase ''SystemExit''\<rparr>"
  have t1: "time_sleep_error 86400 = None" by (simp add: time_sleep_error_def)
  have t2: "time_sleep_error 3600 = None" by (simp add: time_sleep_error_def)
  have w1: "(limit_refresh_loop ?s, ''collect_limit_func'', 86400) =
         (limit_refresh_loop ?s, ''collect_limit_func'', limit_interval ?s) \<or>
       (limit_refresh_loop ?s, ''collect_limit_func'', 86400) =
         (usage_refresh_loop ?s, ''collect_usage_func'', usage_interval ?s)"
    by simp
  have w2: "(usage_refresh_loop ?s, ''collect_usage_func'', 3600) =
         (limit_refresh_loop ?s, ''collect_limit_func'', limit_interval ?s) \<or>
       (usage_refresh_loop ?s, ''collect_usage_func'', 3600) =
         (usage_refresh_loop ?s, ''collect_usage_func'', usage_interval ?s)"
    by simp
  have r1: "\<forall>x \<in> set ?xs. running_at_test x \<and>
          (time_sleep_error 86400 = None \<longrightarrow>
             running_after_sleep x \<and> (\<forall>e. outcome x \<noteq> RaisesBase e))"
    by simp
  have r2: "\<forall>x \<in> set ?xs. running_at_test x \<and>
          (time_sleep_error 3600 = None \<longrightarrow>
             running_after_sleep x \<and> (\<forall>e. outcome x \<noteq> RaisesBase e))"
    by simp
  have z: "running_at_test ?z \<and> running_after_sleep ?z \<and> outcome ?z = RaisesBase ''SystemExit''"
    by simp
  from refresh_loops_survive_failed_cycles [OF w1 r1, of ?z "''SystemExit''" "[\<lparr>running_at_test = True, running_after_sleep = True, outcome = Returns\<rparr>]"]
       refresh_loops_survive_failed_cycles [OF w2 r2, of ?z "''SystemExit''" "[]"]
       t1 t2 z p3
  show ?thesis by simp
qed

section \<open>Retry policy\<close>

lemma throttled_code:
  "throttled (ClientError ''TooManyRequestsException'' m)"
proof -
  have "exc_str (ClientError ''TooManyRequestsException'' m) =
          ''An error occurred ('' @ ''TooManyRequestsException'' @
          ('') when calling the GetServiceQuota operation: '' @ m)"
    by simp
  then show ?thesis unfolding throttled_def py_in_iff by blast
qed

lemma client_sleeps_not_throttled:
  assumes "\<not> throttled e"
  shows "client_sleeps e = []"
proof (cases e)
  case (ClientError code msg)
  with assms throttled_code [of msg] have "code \<noteq> ''TooManyRequestsException''" by auto
  with ClientError show ?thesis by (simp add: client_sleeps_def)
next
  case (NameError n)
  then show ?thesis by (simp add: client_sleeps_def)
next
  case (OtherException t)
  then show ?thesis by (simp add: client_sleeps_def)
qed

lemma after_calls_none: "after_calls w c 0 [] = w"
  by (simp add: after_calls_def)

lemma after_calls_length:
  "length (api_calls (after_calls w c n sl)) = length (api_calls w) + n"
  by (simp add: after_calls_def)

lemma sleep_after_calls: "sleep d (after_calls w c n sl) = after_calls w c n (sl @ [d])"
  by (simp add: after_calls_def sleep_def)

lemma get_service_quota_returns:
  assumes "get_quota_api rem (length (api_calls w) + n) cr s q = Inr quota"
  shows "get_service_quota rem cr s q (after_calls w (cr, s, q) n sl) =
           (Inr (quota_dict q quota), after_calls w (cr, s, q) (Suc n) sl)"
  using assms
  by (simp add: get_service_quota_def after_calls_def replicate_append_same)

lemma get_service_quota_raises:
  assumes "get_quota_api rem (length (api_calls w) + n) cr s q = Inl e"
  shows "get_service_quota rem cr s q (after_calls w (cr, s, q) n sl) =
           (Inl e, after_calls w (cr, s, q) (Suc n) (sl @ client_sleeps e))"
proof (cases e)
  case (ClientError code msg)
  with assms show ?thesis
    by (simp add: get_service_quota_def after_calls_def client_sleeps_def sleep_def
          replicate_append_same Let_def)
next
  case (NameError x)
  with assms show ?thesis
    by (simp add: get_service_quota_def after_calls_def client_sleeps_def replicate_append_same)
next
  case (OtherException t)
  with assms show ?thesis
    by (simp add: get_service_quota_def after_calls_def client_sleeps_def replicate_append_same)
qed

lemma retry_step_break:
  assumes "retry_count < 3"
    and "get_service_quota rem cr s q w = (Inr quota_info, w1)"
  shows "retry_loop rem cr s q retry_count w = (Inr (Some quota_info), w1)"
  using assms by (subst retry_loop.simps) (simp add: max_retries_def)

lemma retry_step_again:
  assumes "retry_count < 2"
    and "get_service_quota rem cr s q w = (Inl e, w1)"
    and "throttled e"
  shows "retry_loop rem cr s q retry_count w =
           retry_loop rem cr s q (Suc retry_count) (sleep (2 ^ retry_count * 2) w1)"
  using assms by (subst retry_loop.simps) (simp add: max_retries_def throttled_def)

lemma retry_step_raise:
  assumes "retry_count < 3"
    and "get_service_quota rem cr s q w = (Inl e, w1)"
    and "\<not> throttled e \<or> retry_count = 2"
  shows "retry_loop rem cr s q retry_count w = (Inl e, w1)"
  using assms by (subst retry_loop.simps) (auto simp: max_retries_def throttled_def)

text \<open>Attempt number \<open>n\<close> of a fetch, after \<open>n\<close> calls with the sleeps \<open>sl\<close>.\<close>

lemma attempt_returns:
  assumes "n < 3" and "get_quota_api rem (length (api_calls w) + n) cr s q = Inr quota"
  shows "retry_loop rem cr s q n (after_calls w (cr, s, q) n sl) =
           (Inr (Some (quota_dict q quota)), after_calls w (cr, s, q) (Suc n) sl)"
  by (rule retry_step_break [OF assms(1) get_service_quota_returns [OF assms(2)]])

lemma attempt_raises:
  assumes "n < 3" and "get_quota_api rem (length (api_calls w) + n) cr s q = Inl e"
    and "\<not> throttled e \<or> n = 2"
  shows "retry_loop rem cr s q n (after_calls w (cr, s, q) n sl) =
           (Inl e, after_calls w (cr, s, q) (Suc n) (sl @ client_sleeps e))"
  by (rule retry_step_raise [OF assms(1) get_service_quota_raises [OF assms(2)] assms(3)])

lemma attempt_again:
  assumes "n < 2" and "get_quota_api rem (length (api_calls w) + n) cr s q = Inl e"
    and "throttled e"
  shows "retry_loop rem cr s q n (after_calls w (cr, s, q) n sl) =
           retry_loop rem cr s q (Suc n)
             (after_calls w (cr, s, q) (Suc n) (sl @ client_sleeps e @ [2 ^ n * 2]))"
  using retry_step_again [OF assms(1) get_service_quota_raises [OF assms(2)] assms(3), of sl]
  by (simp add: sleep_after_calls)

lemma fetch_first:
  "get_quota_api rem (length (api_calls w)) cr s q = Inr q0 \<Longrightarrow>
     retry_loop rem cr s q 0 w = (Inr (Some (quota_dict q q0)), after_calls w (cr, s, q) 1 [])"
  "get_quota_api rem (length (api_calls w)) cr s q = Inl e0 \<Longrightarrow> \<not> throttled e0 \<Longrightarrow>
     retry_loop rem cr s q 0 w = (Inl e0, after_calls w (cr, s, q) 1 [])"
  "get_quota_api rem (length (api_calls w)) cr s q = Inl e0 \<Longrightarrow> throttled e0 \<Longrightarrow>
     retry_loop rem cr s q 0 w =
       retry_loop rem cr s q 1 (after_calls w (cr, s, q) 1 (client_sleeps e0 @ [2]))"
proof -
  show "retry_loop rem cr s q 0 w = (Inr (Some (quota_dict q q0)), after_calls w (cr, s, q) 1 [])"
    if "get_quota_api rem (length (api_calls w)) cr s q = Inr q0"
    using attempt_returns [of 0 rem w cr s q q0 "[]"] that by (simp add: after_calls_none)
  show "retry_loop rem cr s q 0 w = (Inl e0, after_calls w (cr, s, q) 1 [])"
    if "get_quota_api rem (length (api_calls w)) cr s q = Inl e0" "\<not> throttled e0"
    using attempt_raises [of 0 rem w cr s q e0 "[]"] that
    by (simp add: after_calls_none client_sleeps_not_throttled)
  show "retry_loop rem cr s q 0 w =
       retry_loop rem cr s q 1 (after_calls w (cr, s, q) 1 (client_sleeps e0 @ [2]))"
    if "get_quota_api rem (length (api_calls w)) cr s q = Inl e0" "throttled e0"
    using attempt_again [of 0 rem w cr s q e0 "[]"] that by (simp add: after_calls_none)
qed

lemma fetch_second:
  "get_quota_api rem (length (api_calls w) + 1) cr s q = Inr q1 \<Longrightarrow>
     retry_loop rem cr s q 1 (after_calls w (cr, s, q) 1 sl) =
       (Inr (Some (quota_dict q q1)), after_calls w (cr, s, q) 2 sl)"
  "get_quota_api rem (length (api_calls w) + 1) cr s q = Inl e1 \<Longrightarrow> \<not> throttled e1 \<Longrightarrow>
     retry_loop rem cr s q 1 (after_calls w (cr, s, q) 1 sl) =
       (Inl e1, after_calls w (cr, s, q) 2 sl)"
  "get_quota_api rem (length (api_calls w) + 1) cr s q = Inl e1 \<Longrightarrow> throttled e1 \<Longrightarrow>
     retry_loop rem cr s q 1 (after_calls w (cr, s, q) 1 sl) =
       retry_loop rem cr s q 2 (after_calls w (cr, s, q) 2 (sl @ client_sleeps e1 @ [4]))"
proof -
  have two: "Suc (Suc 0) = 2" by simp
  show "retry_loop rem cr s q 1 (after_calls w (cr, s, q) 1 sl) =
       (Inr (Some (quota_dict q q1)), after_calls w (cr, s, q) 2 sl)"
    if "get_quota_api rem (length (api_calls w) + 1) cr s q = Inr q1"
    using attempt_returns [of "Suc 0" rem w cr s q q1 sl] that by (simp add: two)
  show "retry_loop rem cr s q 1 (after_calls w (cr, s, q) 1 sl) =
       (Inl e1, after_calls w (cr, s, q) 2 sl)"
    if "get_quota_api rem (length (api_calls w) + 1) cr s q = Inl e1" "\<not> throttled e1"
    using attempt_raises [of "Suc 0" rem w cr s q e1 sl] that
    by (simp add: two client_sleeps_not_throttled)
  show "retry_loop rem cr s q 1 (after_calls w (cr, s, q) 1 sl) =
       retry_loop rem cr s q 2 (after_calls w (cr, s, q) 2 (sl @ client_sleeps e1 @ [4]))"
    if "get_quota_api rem (length (api_calls w) + 1) cr s q = Inl e1" "throttled e1"
    using attempt_again [of "Suc 0" rem w cr s q e1 sl] that by (simp add: two)
qed

lemma fetch_third:
  "get_quota_api rem (length (api_calls w) + 2) cr s q = Inr q2 \<Longrightarrow>
     retry_loop rem cr s q 2 (after_calls w (cr, s, q) 2 sl) =
       (Inr (Some (quota_dict q q2)), after_calls w (cr, s, q) 3 sl)"
  "get_quota_api rem (length (api_calls w) + 2) cr s q = Inl e2 \<Longrightarrow>
     retry_loop rem cr s q 2 (after_calls w (cr, s, q) 2 sl) =
       (Inl e2, after_calls w (cr, s, q) 3 (sl @ client_sleeps e2))"
proof -
  have three: "Suc 2 = 3" by simp
  show "retry_loop rem cr s q 2 (after_calls w (cr, s, q) 2 sl) =
       (Inr (Some (quota_dict q q2)), after_calls w (cr, s, q) 3 sl)"
    if "get_quota_api rem (length (api_calls w) + 2) cr s q = Inr q2"
    using attempt_returns [of 2 rem w cr s q q2 sl] that by (simp add: three)
  show "retry_loop rem cr s q 2 (after_calls w (cr, s, q) 2 sl) =
       (Inl e2, after_calls w (cr, s, q) 3 (sl @ client_sleeps e2))"
    if "get_quota_api rem (length (api_calls w) + 2) cr s q = Inl e2"
    using attempt_raises [of 2 rem w cr s q e2 sl] that by (simp add: three)
qed

lemma retry_loop_cases:
  "(get_quota_api rem (length (api_calls w)) cr s q = Inr q0
      \<longrightarrow> retry_loop rem cr s q 0 w =
          (Inr (Some (quota_dict q q0)), after_calls w (cr, s, q) 1 []))
   \<and> (get_quota_api rem (length (api_calls w)) cr s q = Inl e0 \<and> \<not> throttled e0
      \<longrightarrow> retry_loop rem cr s q 0 w =
          (Inl e0, after_calls w (cr, s, q) 1 []))
   \<and> (get_quota_api rem (length (api_calls w)) cr s q = Inl e0 \<and> throttled e0 \<and>
      get_quota_api rem (length (api_calls w) + 1) cr s q = Inr q1
      \<longrightarrow> retry_loop rem cr s q 0 w =
          (Inr (Some (quota_dict q q1)),
           after_calls w (cr, s, q) 2 (client_sleeps e0 @ [2 ^ 0 * 2])))
   \<and> (get_quota_api rem (length (api_calls w)) cr s q = Inl e0 \<and> throttled e0 \<and>
      get_quota_api rem (length (api_calls w) + 1) cr s q = Inl e1 \<and> \<not> throttled e1
      \<longrightarrow> retry_loop rem cr s q 0 w =
          (Inl e1, after_calls w (cr, s, q) 2 (client_sleeps e0 @ [2 ^ 0 * 2])))
   \<and> (get_quota_api rem (length (api_calls w)) cr s q = Inl e0 \<and> throttled e0 \<and>
      get_quota_api rem (length (api_calls w) + 1) cr s q = Inl e1 \<and> throttled e1 \<and>
      get_quota_api rem (length (api_calls w) + 2) cr s q = Inr q2
      \<longrightarrow> retry_loop rem cr s q 0 w =
          (Inr (Some (quota_dict q q2)),
           after_calls w (cr, s, q) 3
             (client_sleeps e0 @ [2 ^ 0 * 2] @ client_sleeps e1 @ [2 ^ 1 * 2])))
   \<and> (get_quota_api rem (length (api_calls w)) cr s q = Inl e0 \<and> throttled e0 \<and>
      get_quota_api rem (length (api_calls w) + 1) cr s q = Inl e1 \<and> throttled e1 \<and>
      get_quota_api rem (length (api_calls w) + 2) cr s q = Inl e2
      \<longrightarrow> retry_loop rem cr s q 0 w =
          (Inl e2,
           after_calls w (cr, s, q) 3
             (client_sleeps e0 @ [2 ^ 0 * 2] @ client_sleeps e1 @ [2 ^ 1 * 2] @ client_sleeps e2)))"
proof -
  note first = fetch_first [of rem w cr s q]
  note second = fetch_second [of rem w cr s q]
  note third = fetch_third [of rem w cr s q]
  have c1: "(get_quota_api rem (length (api_calls w)) cr s q = Inr q0
        \<longrightarrow> retry_loop rem cr s q 0 w =
            (Inr (Some (quota_dict q q0)), after_calls w (cr, s, q) 1 []))"
    using first(1) by simp
  have c2: "(get_quota_api rem (length (api_calls w)) cr s q = Inl e0 \<and> \<not> throttled e0
        \<longrightarrow> retry_loop rem cr s q 0 w =
            (Inl e0, after_calls w (cr, s, q) 1 []))"
    using first(2) by simp
  have c3: "(get_quota_api rem (length (api_calls w)) cr s q = Inl e0 \<and> throttled e0 \<and>
        get_quota_api rem (length (api_calls w) + 1) cr s q = Inr q1
        \<longrightarrow> retry_loop rem cr s q 0 w =
            (Inr (Some (quota_dict q q1)),
             after_calls w (cr, s, q) 2 (client_sleeps e0 @ [2 ^ 0 * 2])))"
    using first(3) [of e0] second(1) [of q1 "client_sleeps e0 @ [2]"] by simp
  have c4: "(get_quota_api rem (length (api_calls w)) cr s q = Inl e0 \<and> throttled e0 \<and>
        get_quota_api rem (length (api_calls w) + 1) cr s q = Inl e1 \<and> \<not> throttled e1
        \<longrightarrow> retry_loop rem cr s q 0 w =
            (Inl e1, after_calls w (cr, s, q) 2 (client_sleeps e0 @ [2 ^ 0 * 2])))"
    using first(3) [of e0] second(2) [of e1 "client_sleeps e0 @ [2]"] by simp
  have c5: "(get_quota_api rem (length (api_calls w)) cr s q = Inl e0 \<and> throttled e0 \<and>
        get_quota_api rem (length (api_calls w) + 1) cr s q = Inl e1 \<and> throttled e1 \<and>
        get_quota_api rem (length (api_calls w) + 2) cr s q = Inr q2
        \<longrightarrow> retry_loop rem cr s q 0 w =
            (Inr (Some (quota_dict q q2)),
             after_calls w (cr, s, q) 3
               (client_sleeps e0 @ [2 ^ 0 * 2] @ client_sleeps e1 @ [2 ^ 1 * 2])))"
    using first(3) [of e0] second(3) [of e1 "client_sleeps e0 @ [2]"]
      third(1) [of q2 "client_sleeps e0 @ [2] @ client_sleeps e1 @ [4]"] by simp
  have c6: "(get_quota_api rem (length (api_calls w)) cr s q = Inl e0 \<and> throttled e0 \<and>
        get_quota_api rem (length (api_calls w) + 1) cr s q = Inl e1 \<and> throttled e1 \<and>
        get_quota_api rem (length (api_calls w) + 2) cr s q = Inl e2
        \<longrightarrow> retry_loop rem cr s q 0 w =
            (Inl e2,
             after_calls w (cr, s, q) 3
               (client_sleeps e0 @ [2 ^ 0 * 2] @ client_sleeps e1 @ [2 ^ 1 * 2] @ client_sleeps e2)))"
    using first(3) [of e0] second(3) [of e1 "client_sleeps e0 @ [2]"]
      third(2) [of e2 "client_sleeps e0 @ [2] @ client_sleeps e1 @ [4]"] by simp
  from c1 c2 c3 c4 c5 c6 show ?thesis by (intro conjI)
qed

lemma retry_loop_ceiling:
  "(\<exists>n sl. 1 \<le> n \<and> n \<le> 3 \<and> snd (retry_loop rem cr s q 0 w) = after_calls w (cr, s, q) n sl)"
proof -
  let ?c = "(cr, s, q)"
  note cs = retry_loop_cases [of rem w cr s q]
  have ex: "\<exists>n sl. 1 \<le> n \<and> n \<le> 3 \<and> w' = after_calls w ?c n sl"
    if "w' = after_calls w ?c k sl'" "1 \<le> k" "k \<le> 3" for w' k sl'
    using that by blast
  show ?thesis
  proof (cases "get_quota_api rem (length (api_calls w)) cr s q")
    case (Inr q0)
    with cs [of q0] have "snd (retry_loop rem cr s q 0 w) = after_calls w ?c 1 []" by simp
    then show ?thesis by (rule ex) simp_all
  next
    case r0: (Inl e0)
    show ?thesis
    proof (cases "throttled e0")
      case False
      with r0 cs [of _ e0] have "snd (retry_loop rem cr s q 0 w) = after_calls w ?c 1 []" by simp
      then show ?thesis by (rule ex) simp_all
    next
      case t0: True
      show ?thesis
      proof (cases "get_quota_api rem (length (api_calls w) + 1) cr s q")
        case (Inr q1)
        with r0 t0 cs [of _ e0 q1]
        have "snd (retry_loop rem cr s q 0 w) = after_calls w ?c 2 (client_sleeps e0 @ [2 ^ 0 * 2])" by simp
        then show ?thesis by (rule ex) simp_all
      next
        case r1: (Inl e1)
        show ?thesis
        proof (cases "throttled e1")
          case False
          with r0 t0 r1 cs [of _ e0 _ e1]
          have "snd (retry_loop rem cr s q 0 w) = after_calls w ?c 2 (client_sleeps e0 @ [2 ^ 0 * 2])" by simp
          then show ?thesis by (rule ex) simp_all
        next
          case t1: True
          show ?thesis
          proof (cases "get_quota_api rem (length (api_calls w) + 2) cr s q")
            case (Inr q2)
            with r0 t0 r1 t1 cs [of _ e0 _ e1 q2]
            have "snd (retry_loop rem cr s q 0 w) = after_calls w ?c 3
                    (client_sleeps e0 @ [2 ^ 0 * 2] @ client_sleeps e1 @ [2 ^ 1 * 2])" by simp
            then show ?thesis by (rule ex) simp_all
          next
            case (Inl e2)
            with r0 t0 r1 t1 cs [of _ e0 _ e1 _ e2]
            have "snd (retry_loop rem cr s q 0 w) = after_calls w ?c 3
                    (client_sleeps e0 @ [2 ^ 0 * 2] @ client_sleeps e1 @ [2 ^ 1 * 2]
                     @ client_sleeps e2)" by simp
            then show ?thesis by (rule ex) simp_all
          qed
        qed
      qed
    qed
  qed
qed

text \<open>
  C1 (amended). An error is a throttling error when its text names
  \<open>TooManyRequestsException\<close>. A fetch, started at attempt 0 in any state and against any
  remote, goes one of six ways, decided by the responses to its calls:
  the first call returns a quota (one call, no wait);
  the first call raises an error that is not a throttling error, which is raised at once
  (one call, no retry);
  the first call is throttled and the second returns (two calls, the loop waits
  \<open>2 ^ 0 * 2 = 2\<close> seconds between them);
  the first call is throttled and the second raises an error that is not a throttling
  error, which is raised at once (two calls, one wait of 2 seconds);
  the first two calls are throttled and the third returns (three calls, the loop waits
  2 and then \<open>2 ^ 1 * 2 = 4\<close> seconds);
  the first two calls are throttled and the third raises any error, which is raised
  without a further wait of the loop (three calls: the ceiling of three attempts).
  So a fetch makes between one and three calls. On top of the loop's waits the client
  itself sleeps 2 seconds at each response that is a \<open>ClientError\<close> with the code
  \<open>TooManyRequestsException\<close>, and at no other error: three such responses in a row wait
  2, 2, 2, 4, 2 seconds, 12 in all, while three errors that only name
  \<open>TooManyRequestsException\<close> in their text wait 2 and 4 seconds, 6 in all. An error
  raised by the fetch becomes a failed result whose error is the error's text and whose
  reason is \<open>quota_not_found\<close>, \<open>permission_denied\<close> or \<open>api_error\<close>, read from that text.
\<close>

theorem retry_backoff_policy:
  "(get_quota_api rem (length (api_calls w)) cr s q = Inr q0
      \<longrightarrow> retry_loop rem cr s q 0 w =
          (Inr (Some (quota_dict q q0)), after_calls w (cr, s, q) 1 []))
   \<and> (get_quota_api rem (length (api_calls w)) cr s q = Inl e0 \<and> \<not> throttled e0
      \<longrightarrow> retry_loop rem cr s q 0 w =
          (Inl e0, after_calls w (cr, s, q) 1 []))
   \<and> (get_quota_api rem (length (api_calls w)) cr s q = Inl e0 \<and> throttled e0 \<and>
      get_quota_api rem (length (api_calls w) + 1) cr s q = Inr q1
      \<longrightarrow> retry_loop rem cr s q 0 w =
          (Inr (Some (quota_dict q q1)),
           after_calls w (cr, s, q) 2 (client_sleeps e0 @ [2 ^ 0 * 2])))
   \<and> (get_quota_api rem (length (api_calls w)) cr s q = Inl e0 \<and> throttled e0 \<and>
      get_quota_api rem (length (api_calls w) + 1) cr s q = Inl e1 \<and> \<not> throttled e1
      \<longrightarrow> retry_loop rem cr s q 0 w =
          (Inl e1, after_calls w (cr, s, q) 2 (client_sleeps e0 @ [2 ^ 0 * 2])))
   \<and> (get_quota_api rem (length (api_calls w)) cr s q = Inl e0 \<and> throttled e0 \<and>
      get_quota_api rem (length (api_calls w) + 1) cr s q = Inl e1 \<and> throttled e1 \<and>
      get_quota_api rem (length (api_calls w) + 2) cr s q = Inr q2
      \<longrightarrow> retry_loop rem cr s q 0 w =
          (Inr (Some (quota_dict q q2)),
           after_calls w (cr, s, q) 3
             (client_sleeps e0 @ [2 ^ 0 * 2] @ client_sleeps e1 @ [2 ^ 1 * 2])))
   \<and> (get_quota_api rem (length (api_calls w)) cr s q = Inl e0 \<and> throttled e0 \<and>
      get_quota_api rem (length (api_calls w) + 1) cr s q = Inl e1 \<and> throttled e1 \<and>
      get_quota_api rem (length (api_calls w) + 2) cr s q = Inl e2
      \<longrightarrow> retry_loop rem cr s q 0 w =
          (Inl e2,
           after_calls w (cr, s, q) 3
             (client_sleeps e0 @ [2 ^ 0 * 2] @ client_sleeps e1 @ [2 ^ 1 * 2] @ client_sleeps e2)))
   \<and> (\<exists>n sl. 1 \<le> n \<and> n \<le> 3 \<and> snd (retry_loop rem cr s q 0 w) = after_calls w (cr, s, q) n sl)
   \<and> throttled (ClientError ''TooManyRequestsException'' m)
   \<and> client_sleeps (ClientError ''TooManyRequestsException'' m) = [2]
   \<and> (\<not> throttled e \<longrightarrow> client_sleeps e = [])
   \<and> client_sleeps (OtherException t) = []
   \<and> res_status (result_of_fetch s q qn acct reg (Inl e)) = FAILED
   \<and> res_reason (result_of_fetch s q qn acct reg (Inl e)) =
         Some (if py_in ''NoSuchResourceException'' (exc_str e) then ''quota_not_found''
               else if py_in ''AccessDeniedException'' (exc_str e) then ''permission_denied''
               else ''api_error'')
   \<and> res_error (result_of_fetch s q qn acct reg (Inl e)) = Some (exc_str e)"
proof -
  have f: "res_status (result_of_fetch s q qn acct reg (Inl e)) = FAILED
   \<and> res_reason (result_of_fetch s q qn acct reg (Inl e)) =
         Some (if py_in ''NoSuchResourceException'' (exc_str e) then ''quota_not_found''
               else if py_in ''AccessDeniedException'' (exc_str e) then ''permission_denied''
               else ''api_error'')
   \<and> res_error (result_of_fetch s q qn acct reg (Inl e)) = Some (exc_str e)"
    by (simp add: result_of_fetch_def failed_result_def reason_of_def)
  have g: "throttled (ClientError ''TooManyRequestsException'' m)
   \<and> client_sleeps (ClientError ''TooManyRequestsException'' m) = [2]
   \<and> (\<not> throttled e \<longrightarrow> client_sleeps e = [])
   \<and> client_sleeps (OtherException t) = []"
    using throttled_code [of m] client_sleeps_not_throttled [of e]
    by (simp add: client_sleeps_def)
  from retry_loop_cases [of rem w cr s q q0 e0 q1 e1 q2 e2] retry_loop_ceiling [of rem cr s q w] g f
  show ?thesis by (elim conjE, intro conjI) assumption+
qed

text \<open>
  C1, as stated, fails on the total wait: when every call is throttled with the service's
  \<open>ClientError\<close>, the sleeps of one fetch are 2, 2, 2, 4, 2 seconds (the client sleeps
  2 seconds at each throttled response, and the loop sleeps 2 and then 4 seconds between
  the attempts), 12 seconds in all and not 6.
\<close>

theorem retry_total_wait_counterexample:
  "sleeps (snd (retry_loop
     \<lparr>get_quota_api = (\<lambda>n r s q. Inl (ClientError ''TooManyRequestsException'' ''Rate exceeded'')),
      list_quotas_api = (\<lambda>r. Inr []),
      collect_usage_api = (\<lambda>s a r. Inr []),
      get_regions_api = (\<lambda>a. Inr []),
      force_refresh_quota_limits = False\<rparr>
     ''us-east-1'' ''ec2'' ''L-1216C47A'' 0
     \<lparr>clock = 0, sleeps = [], api_calls = [], limit_cache = None\<rparr>)) = [2, 2, 2, 4, 2]
   \<and> sum_list (sleeps (snd (retry_loop
     \<lparr>get_quota_api = (\<lambda>n r s q. Inl (ClientError ''TooManyRequestsException'' ''Rate exceeded'')),
      list_quotas_api = (\<lambda>r. Inr []),
      collect_usage_api = (\<lambda>s a r. Inr []),
      get_regions_api = (\<lambda>a. Inr []),
      force_refresh_quota_limits = False\<rparr>
     ''us-east-1'' ''ec2'' ''L-1216C47A'' 0
     \<lparr>clock = 0, sleeps = [], api_calls = [], limit_cache = None\<rparr>))) \<noteq> 6"
proof -
  let ?rem = "\<lparr>get_quota_api = (\<lambda>n r s q. Inl (ClientError ''TooManyRequestsException'' ''Rate exceeded'')),
      list_quotas_api = (\<lambda>r. Inr []),
      collect_usage_api = (\<lambda>s a r. Inr []),
      get_regions_api = (\<lambda>a. Inr []),
      force_refresh_quota_limits = False\<rparr>"
  let ?w = "\<lparr>clock = 0, sleeps = [], api_calls = [], limit_cache = None\<rparr>"
  let ?e = "ClientError ''TooManyRequestsException'' ''Rate exceeded''"
  have t: "throttled ?e" by (rule throttled_code)
  have "retry_loop ?rem ''us-east-1'' ''ec2'' ''L-1216C47A'' 0 ?w =
          (Inl ?e, after_calls ?w (''us-east-1'', ''ec2'', ''L-1216C47A'') 3
             (client_sleeps ?e @ [2 ^ 0 * 2] @ client_sleeps ?e @ [2 ^ 1 * 2] @ client_sleeps ?e))"
    using retry_loop_cases [of ?rem ?w "''us-east-1''" "''ec2''" "''L-1216C47A''" _ ?e _ ?e _ ?e] t
    by simp
  then show ?thesis by (simp add: after_calls_def client_sleeps_def)
qed

theorem retry_backoff_policy_witness:
  "retry_loop
     \<lparr>get_quota_api = (\<lambda>n r s q. Inl (ClientError ''TooManyRequestsException'' ''Rate exceeded'')),
      list_quotas_api = (\<lambda>r. Inr []),
      collect_usage_api = (\<lambda>s a r. Inr []),
      get_regions_api = (\<lambda>a. Inr []),
      force_refresh_quota_limits = False\<rparr>
     ''r'' ''s'' ''q'' 0
     \<lparr>clock = 0, sleeps = [], api_calls = [], limit_cache = None\<rparr>
   = (Inl (ClientError ''TooManyRequestsException'' ''Rate exceeded''),
      \<lparr>clock = 12, sleeps = [2, 2, 2, 4, 2], api_calls = [(''r'', ''s'', ''q''), (''r'', ''s'', ''q''), (''r'', ''s'', ''q'')], limit_cache = None\<rparr>)
   \<and> retry_loop
     \<lparr>get_quota_api = (\<lambda>n r s q. Inl (OtherException ''TooManyRequestsException'')),
      list_quotas_api = (\<lambda>r. Inr []),
      collect_usage_api = (\<lambda>s a r. Inr []),
      get_regions_api = (\<lambda>a. Inr []),
      force_refresh_quota_limits = False\<rparr>
     ''r'' ''s'' ''q'' 0
     \<lparr>clock = 0, sleeps = [], api_calls = [], limit_cache = None\<rparr>
   = (Inl (OtherException ''TooManyRequestsException''),
      \<lparr>clock = 6, sleeps = [2, 4], api_calls = [(''r'', ''s'', ''q''), (''r'', ''s'', ''q''), (''r'', ''s'', ''q'')], limit_cache = None\<rparr>)
   \<and> retry_loop
     \<lparr>get_quota_api = (\<lambda>n r s q. if n < 1 then Inl (ClientError ''TooManyRequestsException'' ''Rate exceeded'') else Inl (ClientError ''AccessDeniedException'' ''no'')),
      list_quotas_api = (\<lambda>r. Inr []),
      collect_usage_api = (\<lambda>s a r. Inr []),
      get_regions_api = (\<lambda>a. Inr []),
      force_refresh_quota_limits = False\<rparr>
     ''r'' ''s'' ''q'' 0
     \<lparr>clock = 0, sleeps = [], api_calls = [], limit_cache = None\<rparr>
   = (Inl (ClientError ''AccessDeniedException'' ''no''),
      \<lparr>clock = 4, sleeps = [2, 2], api_calls = [(''r'', ''s'', ''q''), (''r'', ''s'', ''q'')], limit_cache = None\<rparr>)
   \<and> retry_loop
     \<lparr>get_quota_api = (\<lambda>n r s q. Inl (ClientError ''AccessDeniedException'' ''no'')),
      list_quotas_api = (\<lambda>r. Inr []),
      collect_usage_api = (\<lambda>s a r. Inr []),
      get_regions_api = (\<lambda>a. Inr []),
      force_refresh_quota_limits = False\<rparr>
     ''r'' ''s'' ''q'' 0
     \<lparr>clock = 0, sleeps = [], api_calls = [], limit_cache = None\<rparr>
   = (Inl (ClientError ''AccessDeniedException'' ''no''),
      \<lparr>clock = 0, sleeps = [], api_calls = [(''r'', ''s'', ''q'')], limit_cache = None\<rparr>)
   \<and> retry_loop
     \<lparr>get_quota_api = (\<lambda>n r s q. Inr \<lparr>aq_QuotaCode = None, aq_QuotaName = None, aq_Value = Some 5, aq_Unit = None,
        aq_Adjustable = None, aq_GlobalQuota = None\<rparr>),
      list_quotas_api = (\<lambda>r. Inr []),
      collect_usage_api = (\<lambda>s a r. Inr []),
      get_regions_api = (\<lambda>a. Inr []),
      force_refresh_quota_limits = False\<rparr>
     ''r'' ''s'' ''q'' 0
     \<lparr>clock = 0, sleeps = [], api_calls = [], limit_cache = None\<rparr>
   = (Inr (Some (quota_dict ''q'' \<lparr>aq_QuotaCode = None, aq_QuotaName = None, aq_Value = Some 5, aq_Unit = None,
        aq_Adjustable = None, aq_GlobalQuota = None\<rparr>)),
      \<lparr>clock = 0, sleeps = [], api_calls = [(''r'', ''s'', ''q'')], limit_cache = None\<rparr>)
   \<and> retry_loop
     \<lparr>get_quota_api = (\<lambda>n r s q. if n < 1 then Inl (ClientError ''TooManyRequestsException'' ''Rate exceeded'') else Inr \<lparr>aq_QuotaCode = None, aq_QuotaName = None, aq_Value = Some 5, aq_Unit = None,
        aq_Adjustable = None, aq_GlobalQuota = None\<rparr>),
      list_quotas_api = (\<lambda>r. Inr []),
      collect_usage_api = (\<lambda>s a r. Inr []),
      get_regions_api = (\<lambda>a. Inr []),
      force_refresh_quota_limits = False\<rparr>
     ''r'' ''s'' ''q'' 0
     \<lparr>clock = 0, sleeps = [], api_calls = [], limit_cache = None\<rparr>
   = (Inr (Some (quota_dict ''q'' \<lparr>aq_QuotaCode = None, aq_QuotaName = None, aq_Value = Some 5, aq_Unit = None,
        aq_Adjustable = None, aq_GlobalQuota = None\<rparr>)),
      \<lparr>clock = 4, sleeps = [2, 2], api_calls = [(''r'', ''s'', ''q''), (''r'', ''s'', ''q'')], limit_cache = None\<rparr>)
   \<and> retry_loop
     \<lparr>get_quota_api = (\<lambda>n r s q. if n < 2 then Inl (ClientError ''TooManyRequestsException'' ''Rate exceeded'') else Inr \<lparr>aq_QuotaCode = None, aq_QuotaName = None, aq_Value = Some 5, aq_Unit = None,
        aq_Adjustable = None, aq_GlobalQuota = None\<rparr>),
      list_quotas_api = (\<lambda>r. Inr []),
      collect_usage_api = (\<lambda>s a r. Inr []),
      get_regions_api = (\<lambda>a. Inr []),
      force_refresh_quota_limits = False\<rparr>
     ''r'' ''s'' ''q'' 0
     \<lparr>clock = 0, sleeps = [], api_calls = [], limit_cache = None\<rparr>
   = (Inr (Some (quota_dict ''q'' \<lparr>aq_QuotaCode = None, aq_QuotaName = None, aq_Value = Some 5, aq_Unit = None,
        aq_Adjustable = None, aq_GlobalQuota = None\<rparr>)),
      \<lparr>clock = 10, sleeps = [2, 2, 2, 4], api_calls = [(''r'', ''s'', ''q''), (''r'', ''s'', ''q''), (''r'', ''s'', ''q'')], limit_cache = None\<rparr>)
   \<and> res_reason (result_of_fetch ''s'' ''q'' ''n'' ''a'' ''r'' (Inl (ClientError ''AccessDeniedException'' ''no''))) = Some ''permission_denied''"
proof -
  let ?w = "\<lparr>clock = 0, sleeps = [], api_calls = [], limit_cache = None\<rparr>"
  let ?tmr = "ClientError ''TooManyRequestsException'' ''Rate exceeded''"
  let ?txt = "OtherException ''TooManyRequestsException''"
  let ?ade = "ClientError ''AccessDeniedException'' ''no''"
  let ?quo = "\<lparr>aq_QuotaCode = None, aq_QuotaName = None, aq_Value = Some 5, aq_Unit = None,
        aq_Adjustable = None, aq_GlobalQuota = None\<rparr>"
  have t1: "throttled ?tmr" by (rule throttled_code)
  have t2: "throttled ?txt" by code_simp
  have t3: "\<not> throttled ?ade" by code_simp
  have s1: "client_sleeps ?tmr = [2]" by (simp add: client_sleeps_def)
  have s2: "client_sleeps ?txt = []" by (simp add: client_sleeps_def)
  have s3: "client_sleeps ?ade = []" by (simp add: client_sleeps_def)
  have n1: "\<not> py_in ''NoSuchResourceException'' (exc_str ?ade)" by code_simp
  have n2: "py_in ''AccessDeniedException'' (exc_str ?ade)" by code_simp
  have pa: "retry_loop
     \<lparr>get_quota_api = (\<lambda>n r s q. Inl (ClientError ''TooManyRequestsException'' ''Rate exceeded'')),
      list_quotas_api = (\<lambda>r. Inr []),
      collect_usage_api = (\<lambda>s a r. Inr []),
      get_regions_api = (\<lambda>a. Inr []),
      force_refresh_quota_limits = False\<rparr>
     ''r'' ''s'' ''q'' 0 ?w
   = (Inl (ClientError ''TooManyRequestsException'' ''Rate exceeded''),
      \<lparr>clock = 12, sleeps = [2, 2, 2, 4, 2], api_calls = [(''r'', ''s'', ''q''), (''r'', ''s'', ''q''), (''r'', ''s'', ''q'')], limit_cache = None\<rparr>)"
    using retry_backoff_policy
            [of "\<lparr>get_quota_api = (\<lambda>n r s q. Inl (ClientError ''TooManyRequestsException'' ''Rate exceeded'')),
      list_quotas_api = (\<lambda>r. Inr []),
      collect_usage_api = (\<lambda>s a r. Inr []),
      get_regions_api = (\<lambda>a. Inr []),
      force_refresh_quota_limits = False\<rparr>"
                ?w "''r''" "''s''" "''q''" _ ?tmr _ ?tmr _ ?tmr]
          t1 t2 t3 s1 s2 s3
    by (simp add: after_calls_def numeral_3_eq_3 numeral_2_eq_2)
  have pb: "retry_loop
     \<lparr>get_quota_api = (\<lambda>n r s q. Inl (OtherException ''TooManyRequestsException'')),
      list_quotas_api = (\<lambda>r. Inr []),
      collect_usage_api = (\<lambda>s a r. Inr []),
      get_regions_api = (\<lambda>a. Inr []),
      force_refresh_quota_limits = False\<rparr>
     ''r'' ''s'' ''q'' 0 ?w
   = (Inl (OtherException ''TooManyRequestsException''),
      \<lparr>clock = 6, sleeps = [2, 4], api_calls = [(''r'', ''s'', ''q''), (''r'', ''s'', ''q''), (''r'', ''s'', ''q'')], limit_cache = None\<rparr>)"
    using retry_backoff_policy
            [of "\<lparr>get_quota_api = (\<lambda>n r s q. Inl (OtherException ''TooManyRequestsException'')),
      list_quotas_api = (\<lambda>r. Inr []),
      collect_usage_api = (\<lambda>s a r. Inr []),
      get_regions_api = (\<lambda>a. Inr []),
      force_refresh_quota_limits = False\<rparr>"
                ?w "''r''" "''s''" "''q''" _ ?txt _ ?txt _ ?txt]
          t1 t2 t3 s1 s2 s3
    by (simp add: after_calls_def numeral_3_eq_3 numeral_2_eq_2)
  have pc: "retry_loop
     \<lparr>get_quota_api = (\<lambda>n r s q. if n < 1 then Inl (ClientError ''TooManyRequestsException'' ''Rate exceeded'') else Inl (ClientError ''AccessDeniedException'' ''no'')),
      list_quotas_api = (\<lambda>r. Inr []),
      collect_usage_api = (\<lambda>s a r. Inr []),
      get_regions_api = (\<lambda>a. Inr []),
      force_refresh_quota_limits = False\<rparr>
     ''r'' ''s'' ''q'' 0 ?w
   = (Inl (ClientError ''AccessDeniedException'' ''no''),
      \<lparr>clock = 4, sleeps = [2, 2], api_calls = [(''r'', ''s'', ''q''), (''r'', ''s'', ''q'')], limit_cache = None\<rparr>)"
    using retry_backoff_policy
            [of "\<lparr>get_quota_api = (\<lambda>n r s q. if n < 1 then Inl (ClientError ''TooManyRequestsException'' ''Rate exceeded'') else Inl (ClientError ''AccessDeniedException'' ''no'')),
      list_quotas_api = (\<lambda>r. Inr []),
      collect_usage_api = (\<lambda>s a r. Inr []),
      get_regions_api = (\<lambda>a. Inr []),
      force_refresh_quota_limits = False\<rparr>"
                ?w "''r''" "''s''" "''q''" _ ?tmr _ ?ade _ _]
          t1 t2 t3 s1 s2 s3
    by (simp add: after_calls_def numeral_3_eq_3 numeral_2_eq_2)
  have pd: "retry_loop
     \<lparr>get_quota_api = (\<lambda>n r s q. Inl (ClientError ''AccessDeniedException'' ''no'')),
      list_quotas_api = (\<lambda>r. Inr []),
      collect_usage_api = (\<lambda>s a r. Inr []),
      get_regions_api = (\<lambda>a. Inr []),
      force_refresh_quota_limits = False\<rparr>
     ''r'' ''s'' ''q'' 0 ?w
   = (Inl (ClientError ''AccessDeniedException'' ''no''),
      \<lparr>clock = 0, sleeps = [], api_calls = [(''r'', ''s'', ''q'')], limit_cache = None\<rparr>)"
    using retry_backoff_policy
            [of "\<lparr>get_quota_api = (\<lambda>n r s q. Inl (ClientError ''AccessDeniedException'' ''no'')),
      list_quotas_api = (\<lambda>r. Inr []),
      collect_usage_api = (\<lambda>s a r. Inr []),
      get_regions_api = (\<lambda>a. Inr []),
      force_refresh_quota_limits = False\<rparr>"
                ?w "''r''" "''s''" "''q''" _ ?ade _ _ _ _]
          t1 t2 t3 s1 s2 s3
    by (simp add: after_calls_def numeral_3_eq_3 numeral_2_eq_2)
  have pe: "retry_loop
     \<lparr>get_quota_api = (\<lambda>n r s q. Inr \<lparr>aq_QuotaCode = None, aq_QuotaName = None, aq_Value = Some 5, aq_Unit = None,
        aq_Adjustable = None, aq_GlobalQuota = None\<rparr>),
      list_quotas_api = (\<lambda>r. Inr []),
      collect_usage_api = (\<lambda>s a r. Inr []),
      get_regions_api = (\<lambda>a. Inr []),
      force_refresh_quota_limits = False\<rparr>
     ''r'' ''s'' ''q'' 0 ?w
   = (Inr (Some (quota_dict ''q'' \<lparr>aq_QuotaCode = None, aq_QuotaName = None, aq_Value = Some 5, aq_Unit = None,
        aq_Adjustable = None, aq_GlobalQuota = None\<rparr>)),
      \<lparr>clock = 0, sleeps = [], api_calls = [(''r'', ''s'', ''q'')], limit_cache = None\<rparr>)"
    using retry_backoff_policy
            [of "\<lparr>get_quota_api = (\<lambda>n r s q. Inr \<lparr>aq_QuotaCode = None, aq_QuotaName = None, aq_Value = Some 5, aq_Unit = None,
        aq_Adjustable = None, aq_GlobalQuota = None\<rparr>),
      list_quotas_api = (\<lambda>r. Inr []),
      collect_usage_api = (\<lambda>s a r. Inr []),
      get_regions_api = (\<lambda>a. Inr []),
      force_refresh_quota_limits = False\<rparr>"
                ?w "''r''" "''s''" "''q''" ?quo _ _ _ _ _]
          t1 t2 t3 s1 s2 s3
    by (simp add: after_calls_def numeral_3_eq_3 numeral_2_eq_2)
  have pf: "retry_loop
     \<lparr>get_quota_api = (\<lambda>n r s q. if n < 1 then Inl (ClientError ''TooManyRequestsException'' ''Rate exceeded'') else Inr \<lparr>aq_QuotaCode = None, aq_QuotaName = None, aq_Value = Some 5, aq_Unit = None,
        aq_Adjustable = None, aq_GlobalQuota = None\<rparr>),
      list_quotas_api = (\<lambda>r. Inr []),
      collect_usage_api = (\<lambda>s a r. Inr []),
      get_regions_api = (\<lambda>a. Inr []),
      force_refresh_quota_limits = False\<rparr>
     ''r'' ''s'' ''q'' 0 ?w
   = (Inr (Some (quota_dict ''q'' \<lparr>aq_QuotaCode = None, aq_QuotaName = None, aq_Value = Some 5, aq_Unit = None,
        aq_Adjustable = None, aq_GlobalQuota = None\<rparr>)),
      \<lparr>clock = 4, sleeps = [2, 2], api_calls = [(''r'', ''s'', ''q''), (''r'', ''s'', ''q'')], limit_cache = None\<rparr>)"
    using retry_backoff_policy
            [of "\<lparr>get_quota_api = (\<lambda>n r s q. if n < 1 then Inl (ClientError ''TooManyRequestsException'' ''Rate exceeded'') else Inr \<lparr>aq_QuotaCode = None, aq_QuotaName = None, aq_Value = Some 5, aq_Unit = None,
        aq_Adjustable = None, aq_GlobalQuota = None\<rparr>),
      list_quotas_api = (\<lambda>r. Inr []),
      collect_usage_api = (\<lambda>s a r. Inr []),
      get_regions_api = (\<lambda>a. Inr []),
      force_refresh_quota_limits = False\<rparr>"
                ?w "''r''" "''s''" "''q''" _ ?tmr ?quo _ _ _]
          t1 t2 t3 s1 s2 s3
    by (simp add: after_calls_def numeral_3_eq_3 numeral_2_eq_2)
  have pg: "retry_loop
     \<lparr>get_quota_api = (\<lambda>n r s q. if n < 2 then Inl (ClientError ''TooManyRequestsException'' ''Rate exceeded'') else Inr \<lparr>aq_QuotaCode = None, aq_QuotaName = None, aq_Value = Some 5, aq_Unit = None,
        aq_Adjustable = None, aq_GlobalQuota = None\<rparr>),
      list_quotas_api = (\<lambda>r. Inr []),
      collect_usage_api = (\<lambda>s a r. Inr []),
      get_regions_api = (\<lambda>a. Inr []),
      force_refresh_quota_limits = False\<rparr>
     ''r'' ''s'' ''q'' 0 ?w
   = (Inr (Some (quota_dict ''q'' \<lparr>aq_QuotaCode = None, aq_QuotaName = None, aq_Value = Some 5, aq_Unit = None,
        aq_Adjustable = None, aq_GlobalQuota = None\<rparr>)),
      \<lparr>clock = 10, sleeps = [2, 2, 2, 4], api_calls = [(''r'', ''s'', ''q''), (''r'', ''s'', ''q''), (''r'', ''s'', ''q'')], limit_cache = None\<rparr>)"
    using retry_backoff_policy
            [of "\<lparr>get_quota_api = (\<lambda>n r s q. if n < 2 then Inl (ClientError ''TooManyRequestsException'' ''Rate exceeded'') else Inr \<lparr>aq_QuotaCode = None, aq_QuotaName = None, aq_Value = Some 5, aq_Unit = None,
        aq_Adjustable = None, aq_GlobalQuota = None\<rparr>),
      list_quotas_api = (\<lambda>r. Inr []),
      collect_usage_api = (\<lambda>s a r. Inr []),
      get_regions_api = (\<lambda>a. Inr []),
      force_refresh_quota_limits = False\<rparr>"
                ?w "''r''" "''s''" "''q''" _ ?tmr _ ?tmr ?quo _]
          t1 t2 t3 s1 s2 s3
    by (simp add: after_calls_def numeral_3_eq_3 numeral_2_eq_2)
  have pr: "res_reason (result_of_fetch ''s'' ''q'' ''n'' ''a'' ''r'' (Inl ?ade)) = Some ''permission_denied''"
    using retry_backoff_policy [of _ _ _ "''s''" "''q''" _ _ _ _ _ _ _ ?ade _ "''n''" "''a''" "''r''"] n1 n2
    by simp
  from pa pb pc pd pe pf pg pr show ?thesis by (intro conjI)
qed

end
